theory Spec2Isabelle
  imports Main
begin

section \<open>Values, requests and responses\<close>

text \<open>
  The program is \<^verbatim>\<open>index.js\<close>: an Express application whose handlers each turn one
  HTTP request into calls on a document store and map the settled result to a response.

  JavaScript values as the handlers meet them: \<^verbatim>\<open>undefined\<close>, \<^verbatim>\<open>null\<close>, strings, the
  store's object identifiers, arrays and objects (a document is an object).
\<close>

datatype jsval =
    Undefined
  | Null
  | Str string
  | Oid nat
  | Arr "jsval list"
  | Obj "(string \<times> jsval) list"

type_synonym doc = "(string \<times> jsval) list"

text \<open>
  A route parameter or a body field is a string or is absent; reading an absent property
  gives \<^verbatim>\<open>undefined\<close>. \<open>js\<close> is the value read, \<open>js_string\<close> is what \<^verbatim>\<open>x + '...'\<close>
  turns it into, \<open>truthy\<close> is the test of \<^verbatim>\<open>if (x)\<close> and \<^verbatim>\<open>!x\<close>.
\<close>

definition js :: "string option \<Rightarrow> jsval" where
  "js v = (case v of None \<Rightarrow> Undefined | Some s \<Rightarrow> Str s)"

definition js_string :: "string option \<Rightarrow> string" where
  "js_string v = (case v of None \<Rightarrow> ''undefined'' | Some s \<Rightarrow> s)"

fun truthy :: "jsval \<Rightarrow> bool" where
  "truthy Undefined = False"
| "truthy Null = False"
| "truthy (Str s) = (s \<noteq> [])"
| "truthy (Oid n) = True"
| "truthy (Arr xs) = True"
| "truthy (Obj fs) = True"

text \<open>Lower-casing, as header names and route literals are compared.\<close>

definition lower :: "char \<Rightarrow> char" where
  "lower c = (let n = (of_char c :: nat) in if 65 \<le> n \<and> n \<le> 90 then char_of (n + 32) else c)"

datatype http_method = GET | POST | PUT | DELETE

text \<open>
  A request: the method; the path split at its slashes (a trailing slash leaves an empty
  last segment); the bearer token of the \<^verbatim>\<open>Authorization\<close> header when there is one; the
  other headers under their lower-cased names, as Node delivers them; the parsed query
  string; the route parameters (bound by the router); the parsed body. The entries the
  program reads are strings or absent. \<^verbatim>\<open>index.js\<close> installs no cookie parser, so
  \<^verbatim>\<open>req.cookies\<close> is \<^verbatim>\<open>undefined\<close>.
\<close>

record request =
  req_method :: http_method
  path :: "string list"
  authorization :: "string option"
  headers :: "(string \<times> string) list"
  query :: "(string \<times> string) list"
  params :: "(string \<times> string) list"
  body :: "(string \<times> string) list"

definition req_headers :: "request \<Rightarrow> string \<Rightarrow> string option" where
  "req_headers req name = map_of (headers req) name"

definition req_query :: "request \<Rightarrow> string \<Rightarrow> string option" where
  "req_query req name = map_of (query req) name"

definition req_params :: "request \<Rightarrow> string \<Rightarrow> string option" where
  "req_params req name = map_of (params req) name"

definition req_body :: "request \<Rightarrow> string \<Rightarrow> string option" where
  "req_body req name = map_of (body req) name"

datatype payload = Text string | Json jsval | File string

text \<open>\<^verbatim>\<open>res.send\<close>, \<^verbatim>\<open>res.json\<close> and \<^verbatim>\<open>res.sendFile\<close> answer with status 200 unless
  \<^verbatim>\<open>res.status\<close> was called first. \<open>Json v\<close> holds the value handed to \<^verbatim>\<open>res.json\<close>; its
  serialisation leaves out the properties whose value is \<^verbatim>\<open>undefined\<close>.\<close>

record response =
  status :: nat
  payload :: payload

section \<open>Store calls\<close>

text \<open>
  The calls the handlers make on the two models, \<^verbatim>\<open>Movies\<close> and \<^verbatim>\<open>Users\<close>. A filter is
  an object of field/value pairs; an update is one of the operators \<^verbatim>\<open>$set\<close>, \<^verbatim>\<open>$push\<close>,
  \<^verbatim>\<open>$pull\<close>. Every \<^verbatim>\<open>findOneAndUpdate\<close> of the program passes \<^verbatim>\<open>{ new: true }\<close>.
\<close>

datatype collection = Movies | Users

datatype update =
    Set_fields doc
  | Push string jsval
  | Pull string jsval

datatype store_op =
    Find collection
  | FindOne collection doc
  | Create collection doc
  | FindOneAndUpdate collection doc update
  | FindOneAndRemove collection doc

text \<open>A call settles: the promise is rejected (the callback gets \<^verbatim>\<open>err\<close>), here with the
  text \<^verbatim>\<open>'Error: ' + err\<close> appends, or it is resolved with a value.\<close>

datatype settled = Rejected string | Resolved jsval

text \<open>
  A handler is a program that either responds or makes a store call and continues with
  what the call settled to (\<^verbatim>\<open>.then\<close> / \<^verbatim>\<open>.catch\<close>, or the callback).
\<close>

datatype prog =
    Respond response
  | Store store_op "settled \<Rightarrow> prog"

text \<open>Running a program against a store \<open>ex\<close> with state \<open>st\<close>: the response and the
  store's new state; \<open>store_calls\<close> lists the calls made, in order.\<close>

primrec run :: "(store_op \<Rightarrow> 'st \<Rightarrow> settled \<times> 'st) \<Rightarrow> prog \<Rightarrow> 'st \<Rightarrow> response \<times> 'st" where
  "run ex (Respond r) = (\<lambda>st. (r, st))"
| "run ex (Store op k) = (\<lambda>st. case ex op st of (res, st') \<Rightarrow> run ex (k res) st')"

primrec store_calls :: "(store_op \<Rightarrow> 'st \<Rightarrow> settled \<times> 'st) \<Rightarrow> prog \<Rightarrow> 'st \<Rightarrow> store_op list" where
  "store_calls ex (Respond r) = (\<lambda>st. [])"
| "store_calls ex (Store op k) =
     (\<lambda>st. case ex op st of (res, st') \<Rightarrow> op # store_calls ex (k res) st')"

section \<open>The handlers of index.js\<close>

text \<open>\<^verbatim>\<open>app.get('/documentation', ...)\<close> and \<^verbatim>\<open>app.get('/', ...)\<close>.\<close>

definition GETDocumentation :: "request \<Rightarrow> prog" where
  "GETDocumentation req =
     Respond \<lparr>status = 200, payload = File ''public/documentation.html''\<rparr>"

definition GETRoot :: "request \<Rightarrow> prog" where
  "GETRoot req = Respond \<lparr>status = 200, payload = Text ''Welcome to my movie club!''\<rparr>"

text \<open>\<^verbatim>\<open>app.get('/movies', ...)\<close>: \<^verbatim>\<open>Movies.find()\<close>, 201 with the result, 400 on error.\<close>

definition GETAllMovies :: "request \<Rightarrow> prog" where
  "GETAllMovies req =
     Store (Find Movies) (\<lambda>r. case r of
         Resolved movie \<Rightarrow> Respond \<lparr>status = 201, payload = Json movie\<rparr>
       | Rejected err \<Rightarrow> Respond \<lparr>status = 400, payload = Text (''Error: '' @ err)\<rparr>)"

text \<open>\<^verbatim>\<open>app.get('/movies/:title', ...)\<close>, \<^verbatim>\<open>app.get('/movies/genre/:name', ...)\<close> and
  \<^verbatim>\<open>app.get('/movies/director/:name', ...)\<close>: \<^verbatim>\<open>Movies.findOne\<close>, then \<^verbatim>\<open>res.json\<close>.\<close>

definition GETOneMovie :: "request \<Rightarrow> prog" where
  "GETOneMovie req =
     Store (FindOne Movies [(''Title'', js (req_params req ''title''))]) (\<lambda>r. case r of
         Resolved movie \<Rightarrow> Respond \<lparr>status = 200, payload = Json movie\<rparr>
       | Rejected err \<Rightarrow> Respond \<lparr>status = 500, payload = Text (''Error: '' @ err)\<rparr>)"

definition GETOneGenre :: "request \<Rightarrow> prog" where
  "GETOneGenre req =
     Store (FindOne Movies [(''Genre.Name'', js (req_params req ''name''))]) (\<lambda>r. case r of
         Resolved genre \<Rightarrow> Respond \<lparr>status = 200, payload = Json genre\<rparr>
       | Rejected err \<Rightarrow> Respond \<lparr>status = 500, payload = Text (''Error: '' @ err)\<rparr>)"

definition GETOneDirector :: "request \<Rightarrow> prog" where
  "GETOneDirector req =
     Store (FindOne Movies [(''Director.Name'', js (req_params req ''name''))]) (\<lambda>r. case r of
         Resolved director \<Rightarrow> Respond \<lparr>status = 200, payload = Json director\<rparr>
       | Rejected err \<Rightarrow> Respond \<lparr>status = 500, payload = Text (''Error: '' @ err)\<rparr>)"

text \<open>\<^verbatim>\<open>app.get('/users', ...)\<close>: \<^verbatim>\<open>Users.find()\<close>, 201 with the result, 400 on error.\<close>

definition GETAllUsers :: "request \<Rightarrow> prog" where
  "GETAllUsers req =
     Store (Find Users) (\<lambda>r. case r of
         Resolved users \<Rightarrow> Respond \<lparr>status = 201, payload = Json users\<rparr>
       | Rejected err \<Rightarrow> Respond \<lparr>status = 400, payload = Text (''Error: '' @ err)\<rparr>)"

subsection \<open>Signup: validation, then check and create\<close>

text \<open>
  The validators of the four \<^verbatim>\<open>check(...)\<close> chains. A validator sees a value as a
  string, the empty string when the value is absent. \<^verbatim>\<open>isLength({min: 5})\<close>,
  \<^verbatim>\<open>isAlphanumeric()\<close> (letters and digits, at least one) and \<^verbatim>\<open>isEmpty()\<close> are written
  out; \<^verbatim>\<open>isEmail()\<close> is the validation library's and is a parameter.
\<close>

definition field_string :: "string option \<Rightarrow> string" where
  "field_string v = (case v of None \<Rightarrow> [] | Some s \<Rightarrow> s)"

definition isLength :: "nat \<Rightarrow> string \<Rightarrow> bool" where
  "isLength n s = (n \<le> length s)"

definition alnum :: "char \<Rightarrow> bool" where
  "alnum c = (let n = (of_char c :: nat) in
     (48 \<le> n \<and> n \<le> 57) \<or> (65 \<le> n \<and> n \<le> 90) \<or> (97 \<le> n \<and> n \<le> 122))"

definition isAlphanumeric :: "string \<Rightarrow> bool" where
  "isAlphanumeric s = (s \<noteq> [] \<and> list_all alnum s)"

definition isEmpty :: "string \<Rightarrow> bool" where
  "isEmpty s = (length s = 0)"

text \<open>The chains in the order of the array passed to \<^verbatim>\<open>app.post('/users', [...], ...)\<close>:
  field, message, and the test the value must pass.\<close>

definition checks :: "(string \<Rightarrow> bool) \<Rightarrow> (string \<times> string \<times> (string \<Rightarrow> bool)) list" where
  "checks isEmail =
     [(''Username'', ''Username is required'', isLength 5),
      (''Username'', ''Username contains non alphanumeric characters - not allowed.'',
         isAlphanumeric),
      (''Password'', ''Password is required'', \<lambda>s. \<not> isEmpty s),
      (''Email'', ''Email does not appear to be valid'', isEmail)]"

text \<open>
  \<^verbatim>\<open>check(field, message)\<close> is the validation library's: it looks the field up in every
  request location, in this order, the header under the lower-cased name. When at least
  one location carries a value the chain runs on every value it finds and the locations
  without one are left out; when none does, it runs once, on the absent body value.
\<close>

definition locations :: "string list" where
  "locations = [''body'', ''cookies'', ''headers'', ''params'', ''query'']"

definition location_value :: "request \<Rightarrow> string \<Rightarrow> string \<Rightarrow> string option" where
  "location_value req loc f =
     (if loc = ''body'' then req_body req f
      else if loc = ''headers'' then req_headers req (map lower f)
      else if loc = ''params'' then req_params req f
      else if loc = ''query'' then req_query req f
      else None)"

definition instances :: "request \<Rightarrow> string \<Rightarrow> (string \<times> string option) list" where
  "instances req f = map (\<lambda>loc. (loc, location_value req loc f)) locations"

definition selected :: "request \<Rightarrow> string \<Rightarrow> (string \<times> string option) list" where
  "selected req f =
     (let withValue = filter (\<lambda>(loc, v). v \<noteq> None) (instances req f)
      in if withValue \<noteq> [] then withValue else take 1 (instances req f))"

text \<open>
  An error of \<^verbatim>\<open>errors.array()\<close>: the value that failed, the chain's message, the field and
  the location, sent as \<^verbatim>\<open>{ value, msg, param, location }\<close>. One chain yields an error for
  each selected value that fails its test; \<^verbatim>\<open>validationResult(req)\<close> holds the errors of
  all chains, in the order of the chains.
\<close>

type_synonym validation_error = "string option \<times> string \<times> string \<times> string"

definition chain_errors ::
  "request \<Rightarrow> string \<times> string \<times> (string \<Rightarrow> bool) \<Rightarrow> validation_error list" where
  "chain_errors req c =
     (case c of (f, m, ok) \<Rightarrow>
        map (\<lambda>(loc, v). (v, m, f, loc))
          (filter (\<lambda>(loc, v). \<not> ok (field_string v)) (selected req f)))"

definition validationResult :: "(string \<Rightarrow> bool) \<Rightarrow> request \<Rightarrow> validation_error list" where
  "validationResult isEmail req = concat (map (chain_errors req) (checks isEmail))"

definition error_json :: "validation_error \<Rightarrow> jsval" where
  "error_json e =
     (case e of (v, m, f, loc) \<Rightarrow>
        Obj [(''value'', js v), (''msg'', Str m), (''param'', Str f), (''location'', Str loc)])"

text \<open>
  \<^verbatim>\<open>app.post('/users', [...], (req, res) => ...)\<close>. \<^verbatim>\<open>Users.hashPassword\<close> is declared in
  \<^verbatim>\<open>models.js\<close> and is a parameter: it is applied to \<^verbatim>\<open>req.body.Password\<close> as it is, a
  string or \<^verbatim>\<open>undefined\<close>, before \<^verbatim>\<open>Users.findOne\<close> is called, and gives the hash or throws
  (\<open>None\<close>). What a handler throws goes to the error-handling middleware registered at
  the end of \<^verbatim>\<open>index.js\<close>, which answers status 500 with \<^verbatim>\<open>Something broke!\<close>.
\<close>

definition POSTUsers ::
  "(string option \<Rightarrow> string option) \<Rightarrow> (string \<Rightarrow> bool) \<Rightarrow> request \<Rightarrow> prog" where
  "POSTUsers hashPassword isEmail req =
     (let errors = validationResult isEmail req in
      if errors \<noteq> [] then
        Respond \<lparr>status = 422, payload = Json (Obj [(''errors'', Arr (map error_json errors))])\<rparr>
      else
        case hashPassword (req_body req ''Password'') of
          None \<Rightarrow> Respond \<lparr>status = 500, payload = Text ''Something broke!''\<rparr>
        | Some hashedPassword \<Rightarrow>
        Store (FindOne Users [(''Username'', js (req_body req ''Username''))]) (\<lambda>r. case r of
            Resolved user \<Rightarrow>
              if truthy user then
                Respond \<lparr>status = 400,
                  payload = Text (js_string (req_body req ''Username'') @ ''already exists'')\<rparr>
              else
                Store (Create Users
                    [(''Username'', js (req_body req ''Username'')),
                     (''Password'', Str hashedPassword),
                     (''Email'', js (req_body req ''Email'')),
                     (''Birthday'', js (req_body req ''Birthday''))]) (\<lambda>r. case r of
                    Resolved user \<Rightarrow> Respond \<lparr>status = 201, payload = Json user\<rparr>
                  | Rejected error \<Rightarrow>
                      Respond \<lparr>status = 500, payload = Text (''Error: '' @ error)\<rparr>)
          | Rejected error \<Rightarrow> Respond \<lparr>status = 500, payload = Text (''Error: '' @ error)\<rparr>))"

subsection \<open>Profile update, favourites, account removal\<close>

text \<open>\<^verbatim>\<open>app.put('/users/:ID', ...)\<close>: the filter reads \<^verbatim>\<open>req.params.id\<close>, the update sets the
  three body fields as they are.\<close>

definition PUTUpdateUser :: "request \<Rightarrow> prog" where
  "PUTUpdateUser req =
     Store (FindOneAndUpdate Users [(''id'', js (req_params req ''id''))]
         (Set_fields
           [(''Password'', js (req_body req ''Password'')),
            (''Email'', js (req_body req ''Email'')),
            (''Birthday'', js (req_body req ''Birthday''))])) (\<lambda>r. case r of
         Rejected err \<Rightarrow> Respond \<lparr>status = 500, payload = Text (''Error: '' @ err)\<rparr>
       | Resolved updatedUser \<Rightarrow> Respond \<lparr>status = 200, payload = Json updatedUser\<rparr>)"

text \<open>\<^verbatim>\<open>app.post('/users/:ID/:movieID', ...)\<close>: the filter reads \<^verbatim>\<open>req.params.ID\<close>, the
  update pushes \<^verbatim>\<open>req.params.movieID\<close>.\<close>

definition POSTAddFavoriteMovie :: "request \<Rightarrow> prog" where
  "POSTAddFavoriteMovie req =
     Store (FindOneAndUpdate Users [(''user_name'', js (req_params req ''ID''))]
         (Push ''FavoriteMovies'' (js (req_params req ''movieID'')))) (\<lambda>r. case r of
         Rejected err \<Rightarrow> Respond \<lparr>status = 500, payload = Text (''Error: '' @ err)\<rparr>
       | Resolved updatedUser \<Rightarrow> Respond \<lparr>status = 200, payload = Json updatedUser\<rparr>)"

text \<open>\<^verbatim>\<open>app.delete('/users/:id/unregister', ...)\<close>: the filter reads \<^verbatim>\<open>req.params.id\<close>, both
  messages read \<^verbatim>\<open>req.params.user_name\<close>.\<close>

definition DELETEUserAccount :: "request \<Rightarrow> prog" where
  "DELETEUserAccount req =
     Store (FindOneAndRemove Users [(''id'', js (req_params req ''id''))]) (\<lambda>r. case r of
         Resolved user \<Rightarrow>
           if \<not> truthy user then
             Respond \<lparr>status = 400,
               payload = Text (js_string (req_params req ''user_name'') @ '' was not found'')\<rparr>
           else
             Respond \<lparr>status = 200,
               payload = Text (js_string (req_params req ''user_name'') @ '' was deleted.'')\<rparr>
       | Rejected err \<Rightarrow> Respond \<lparr>status = 500, payload = Text (''Error: '' @ err)\<rparr>)"

text \<open>\<^verbatim>\<open>app.delete('/users/:ID/:deleteFavorite', ...)\<close>: the filter reads \<^verbatim>\<open>req.params.id\<close>,
  the update pulls \<^verbatim>\<open>req.params.MovieID\<close>.\<close>

definition DELETERemoveFavoriteMovie :: "request \<Rightarrow> prog" where
  "DELETERemoveFavoriteMovie req =
     Store (FindOneAndUpdate Users [(''user_name'', js (req_params req ''id''))]
         (Pull ''FavoriteMovies'' (js (req_params req ''MovieID'')))) (\<lambda>r. case r of
         Rejected err \<Rightarrow> Respond \<lparr>status = 500, payload = Text (''Error: '' @ err)\<rparr>
       | Resolved updatedUser \<Rightarrow> Respond \<lparr>status = 200, payload = Json updatedUser\<rparr>)"

section \<open>Routing and the authentication guard\<close>

text \<open>
  A route path is a list of segments: a literal, or a named parameter (\<^verbatim>\<open>:name\<close>) that
  matches one non-empty segment and is bound under the route's spelling of its name.
  Express compares literals without regard to case and, routing being non-strict, accepts
  one trailing slash.
\<close>

datatype seg = Lit string | Par string

fun match_segs :: "seg list \<Rightarrow> string list \<Rightarrow> (string \<times> string) list option" where
  "match_segs [] [] = Some []"
| "match_segs (Lit l # ps) (s # ss) =
     (if map lower l = map lower s then match_segs ps ss else None)"
| "match_segs (Par n # ps) (s # ss) =
     (if s = [] then None else map_option ((#) (n, s)) (match_segs ps ss))"
| "match_segs _ _ = None"

definition strip_slash :: "string list \<Rightarrow> string list" where
  "strip_slash ss = (if ss \<noteq> [] \<and> last ss = [] then butlast ss else ss)"

definition match_path :: "seg list \<Rightarrow> string list \<Rightarrow> (string \<times> string) list option" where
  "match_path pat ss = match_segs pat (strip_slash ss)"

text \<open>
  Modelled from the spec: the authentication guard's check. \<^verbatim>\<open>passport.authenticate('jwt',
  { session: false })\<close> runs the strategy that \<^verbatim>\<open>passport.js\<close> configures, which is not among
  the sources. Given the bearer token of the request it verifies the token (\<open>verify\<close>, a
  parameter); a request without a token fails the check.
\<close>

definition authenticate :: "(string \<Rightarrow> bool) \<Rightarrow> request \<Rightarrow> bool" where
  "authenticate verify req =
     (case authorization req of None \<Rightarrow> False | Some token \<Rightarrow> verify token)"

text \<open>
  Modelled from the spec: the authentication guard's answer on failure, which is the
  library's and not among the sources: it short-circuits with HTTP 401, and the handler
  does not run.
\<close>

definition unauthorized :: response where
  "unauthorized = \<lparr>status = 401, payload = Text ''Unauthorized''\<rparr>"

text \<open>
  The routes of \<^verbatim>\<open>index.js\<close> in the order they are registered: method, path, whether
  \<^verbatim>\<open>passport.authenticate('jwt', ...)\<close> stands before the handler, and the handler.
\<close>

type_synonym route = "http_method \<times> seg list \<times> bool \<times> (request \<Rightarrow> prog)"

definition routes :: "(string option \<Rightarrow> string option) \<Rightarrow> (string \<Rightarrow> bool) \<Rightarrow> route list" where
  "routes hashPassword isEmail =
     [(GET, [Lit ''documentation''], False, GETDocumentation),
      (GET, [], False, GETRoot),
      (GET, [Lit ''movies''], True, GETAllMovies),
      (GET, [Lit ''movies'', Par ''title''], True, GETOneMovie),
      (GET, [Lit ''movies'', Lit ''genre'', Par ''name''], True, GETOneGenre),
      (GET, [Lit ''movies'', Lit ''director'', Par ''name''], True, GETOneDirector),
      (GET, [Lit ''users''], True, GETAllUsers),
      (POST, [Lit ''users''], False, POSTUsers hashPassword isEmail),
      (PUT, [Lit ''users'', Par ''ID''], True, PUTUpdateUser),
      (POST, [Lit ''users'', Par ''ID'', Par ''movieID''], True, POSTAddFavoriteMovie),
      (DELETE, [Lit ''users'', Par ''id'', Lit ''unregister''], True, DELETEUserAccount),
      (DELETE, [Lit ''users'', Par ''ID'', Par ''deleteFavorite''], True,
         DELETERemoveFavoriteMovie)]"

text \<open>The first route whose method and path match the request, with the parameters the
  match binds.\<close>

fun find_route :: "route list \<Rightarrow> request \<Rightarrow> (route \<times> (string \<times> string) list) option" where
  "find_route [] req = None"
| "find_route ((m, pat, auth, h) # rs) req =
     (if m = req_method req then
        (case match_path pat (path req) of
           Some ps \<Rightarrow> Some ((m, pat, auth, h), ps)
         | None \<Rightarrow> find_route rs req)
      else find_route rs req)"

text \<open>
  The application on one request: the matched route's guard, then its handler on the
  request with its parameters bound. \<open>None\<close> when no route of \<^verbatim>\<open>index.js\<close> matches (the
  request is left to the static files, to the routes of \<^verbatim>\<open>auth.js\<close> and to Express).
\<close>

definition app ::
  "(string \<Rightarrow> bool) \<Rightarrow> (string option \<Rightarrow> string option) \<Rightarrow> (string \<Rightarrow> bool) \<Rightarrow> request \<Rightarrow> prog option" where
  "app verify hashPassword isEmail req =
     (case find_route (routes hashPassword isEmail) req of
        None \<Rightarrow> None
      | Some ((m, pat, auth, h), ps) \<Rightarrow>
          Some (if auth \<and> \<not> authenticate verify req then Respond unauthorized
                else h (req\<lparr>params := ps\<rparr>)))"

section \<open>The document store\<close>

text \<open>
  The store is MongoDB behind Mongoose models; neither is part of the repository. The
  model follows their documented behaviour for the calls and operators the handlers use:
  a collection is a list of documents in insertion order; a filter matches a document
  when every field it names has the given value, where the field name may be a dotted
  path into embedded documents; \<^verbatim>\<open>undefined\<close> is sent as \<^verbatim>\<open>null\<close>, and \<^verbatim>\<open>null\<close> in a filter
  matches a field that is \<^verbatim>\<open>null\<close> or absent.
\<close>

record db =
  movies :: "doc list"
  users :: "doc list"
  next_id :: nat

definition docs :: "collection \<Rightarrow> db \<Rightarrow> doc list" where
  "docs c st = (case c of Movies \<Rightarrow> movies st | Users \<Rightarrow> users st)"

definition put_docs :: "collection \<Rightarrow> doc list \<Rightarrow> db \<Rightarrow> db" where
  "put_docs c ds st = (case c of Movies \<Rightarrow> st\<lparr>movies := ds\<rparr> | Users \<Rightarrow> st\<lparr>users := ds\<rparr>)"

fun get_field :: "jsval \<Rightarrow> string \<Rightarrow> jsval" where
  "get_field (Obj fs) k = (case map_of fs k of Some v \<Rightarrow> v | None \<Rightarrow> Undefined)"
| "get_field _ k = Undefined"

fun get_path :: "jsval \<Rightarrow> string list \<Rightarrow> jsval" where
  "get_path v [] = v"
| "get_path v (k # ks) = get_path (get_field v k) ks"

fun split_path :: "string \<Rightarrow> string list" where
  "split_path [] = [[]]"
| "split_path (c # cs) =
     (if c = CHR ''.'' then [] # split_path cs
      else (case split_path cs of [] \<Rightarrow> [[c]] | w # ws \<Rightarrow> (c # w) # ws))"

definition bson :: "jsval \<Rightarrow> jsval" where
  "bson v = (if v = Undefined then Null else v)"

definition eq_match :: "jsval \<Rightarrow> jsval \<Rightarrow> bool" where
  "eq_match actual wanted =
     (if wanted = Null then actual = Null \<or> actual = Undefined else actual = wanted)"

definition matches :: "doc \<Rightarrow> doc \<Rightarrow> bool" where
  "matches flt d =
     list_all (\<lambda>(k, v). eq_match (get_path (Obj d) (split_path k)) (bson v)) flt"

fun set_field :: "string \<Rightarrow> jsval \<Rightarrow> doc \<Rightarrow> doc" where
  "set_field k v [] = [(k, v)]"
| "set_field k v ((k', v') # d) =
     (if k = k' then (k, v) # d else (k', v') # set_field k v d)"

text \<open>
  The update operators on one document: \<^verbatim>\<open>$set\<close> writes each field; \<^verbatim>\<open>$push\<close> appends to
  the array (creating it when the field is absent); \<^verbatim>\<open>$pull\<close> removes every element equal
  to the value. \<open>None\<close> when the store refuses the update (the field is not an array).
\<close>

fun apply_update :: "update \<Rightarrow> doc \<Rightarrow> doc option" where
  "apply_update (Set_fields fs) d = Some (fold (\<lambda>(k, v). set_field k (bson v)) fs d)"
| "apply_update (Push k v) d =
     (case get_field (Obj d) k of
        Arr xs \<Rightarrow> Some (set_field k (Arr (xs @ [bson v])) d)
      | Undefined \<Rightarrow> Some (set_field k (Arr [bson v]) d)
      | _ \<Rightarrow> None)"
| "apply_update (Pull k v) d =
     (case get_field (Obj d) k of
        Arr xs \<Rightarrow> Some (set_field k (Arr (filter (\<lambda>x. x \<noteq> bson v) xs)) d)
      | Undefined \<Rightarrow> Some d
      | _ \<Rightarrow> None)"

fun replace_first :: "('a \<Rightarrow> bool) \<Rightarrow> 'a \<Rightarrow> 'a list \<Rightarrow> 'a list" where
  "replace_first p y [] = []"
| "replace_first p y (x # xs) = (if p x then y # xs else x # replace_first p y xs)"

fun remove_first :: "('a \<Rightarrow> bool) \<Rightarrow> 'a list \<Rightarrow> 'a list" where
  "remove_first p [] = []"
| "remove_first p (x # xs) = (if p x then xs else x # remove_first p xs)"

text \<open>
  The calls. \<^verbatim>\<open>find()\<close> resolves with all documents, \<^verbatim>\<open>findOne\<close> with the first match or
  \<^verbatim>\<open>null\<close>; \<^verbatim>\<open>create\<close> stores the defined fields under a fresh \<^verbatim>\<open>_id\<close>;
  \<^verbatim>\<open>findOneAndUpdate\<close> with \<^verbatim>\<open>{ new: true }\<close> updates the first match and resolves with the
  updated document, or with \<^verbatim>\<open>null\<close>, changing nothing, when none matches;
  \<^verbatim>\<open>findOneAndRemove\<close> removes the first match and resolves with it, or with \<^verbatim>\<open>null\<close>.
\<close>

fun mongo :: "store_op \<Rightarrow> db \<Rightarrow> settled \<times> db" where
  "mongo (Find c) st = (Resolved (Arr (map Obj (docs c st))), st)"
| "mongo (FindOne c flt) st =
     (case find (matches flt) (docs c st) of
        None \<Rightarrow> (Resolved Null, st)
      | Some d \<Rightarrow> (Resolved (Obj d), st))"
| "mongo (Create c fs) st =
     (let d = (''_id'', Oid (next_id st)) # filter (\<lambda>(k, v). v \<noteq> Undefined) fs
      in (Resolved (Obj d), put_docs c (docs c st @ [d]) (st\<lparr>next_id := Suc (next_id st)\<rparr>)))"
| "mongo (FindOneAndUpdate c flt u) st =
     (case find (matches flt) (docs c st) of
        None \<Rightarrow> (Resolved Null, st)
      | Some d \<Rightarrow>
          (case apply_update u d of
             None \<Rightarrow> (Rejected ''MongoServerError: the field is not an array'', st)
           | Some d' \<Rightarrow>
               (Resolved (Obj d'), put_docs c (replace_first (matches flt) d' (docs c st)) st)))"
| "mongo (FindOneAndRemove c flt) st =
     (case find (matches flt) (docs c st) of
        None \<Rightarrow> (Resolved Null, st)
      | Some d \<Rightarrow> (Resolved (Obj d), put_docs c (remove_first (matches flt) (docs c st)) st))"

text \<open>A store that cannot be reached rejects every call with the same error.\<close>

definition unavailable :: "string \<Rightarrow> store_op \<Rightarrow> 'st \<Rightarrow> settled \<times> 'st" where
  "unavailable err op st = (Rejected err, st)"

section \<open>Example data\<close>

text \<open>One request shape, one token check and one small database, used to run the
  theorems below on concrete inputs.\<close>

definition example_request :: "http_method \<Rightarrow> string list \<Rightarrow> (string \<times> string) list \<Rightarrow> request" where
  "example_request m p b =
     \<lparr>req_method = m, path = p, authorization = Some ''token'', headers = [], query = [],
       params = [], body = b\<rparr>"

definition example_verify :: "string \<Rightarrow> bool" where
  "example_verify t = (t = ''token'')"

definition example_movie :: doc where
  "example_movie =
     [(''_id'', Oid 7), (''Title'', Str ''Up''),
      (''Genre'', Obj [(''Name'', Str ''Drama'')]),
      (''Director'', Obj [(''Name'', Str ''Pete Docter'')])]"

definition example_user :: doc where
  "example_user =
     [(''_id'', Oid 0), (''Username'', Str ''alice1''), (''Password'', Str ''#secret''),
      (''Email'', Str ''a@example.com''), (''FavoriteMovies'', Arr [])]"

definition example_db :: db where
  "example_db = \<lparr>movies = [example_movie], users = [example_user], next_id = 8\<rparr>"

definition example_isEmail :: "string \<Rightarrow> bool" where
  "example_isEmail e = (CHR ''@'' \<in> set e)"

definition example_hash :: "string option \<Rightarrow> string option" where
  "example_hash v = (case v of None \<Rightarrow> None | Some p \<Rightarrow> Some (CHR ''#'' # p))"

definition example_signup :: request where
  "example_signup =
     example_request POST [''users'']
       [(''Username'', ''alice1''), (''Password'', ''secret''),
        (''Email'', ''a@example.com''), (''Birthday'', ''1999-01-01'')]"

definition example_query_signup :: request where
  "example_query_signup =
     (example_request POST [''users'']
        [(''Password'', ''secret''), (''Email'', ''a@example.com'')])
     \<lparr>query := [(''Username'', ''alice1'')]\<rparr>"

definition example_empty_db :: db where
  "example_empty_db = \<lparr>movies = [], users = [], next_id = 0\<rparr>"

definition example_member :: doc where
  "example_member =
     [(''_id'', Oid 1), (''id'', Str ''bob99''), (''user_name'', Str ''bob99''),
      (''Username'', Str ''bob99''), (''Password'', Str ''#hunter2''),
      (''FavoriteMovies'', Arr [])]"

definition example_member_db :: db where
  "example_member_db = \<lparr>movies = [], users = [example_member], next_id = 2\<rparr>"

definition example_unregister :: request where
  "example_unregister = example_request DELETE [''users'', ''bob99'', ''unregister''] []"

definition example_add_favorite :: request where
  "example_add_favorite = example_request POST [''users'', ''bob99'', ''m1''] []"

definition example_remove_favorite :: request where
  "example_remove_favorite = example_request DELETE [''users'', ''bob99'', ''m1''] []"

definition example_update :: "string \<Rightarrow> request" where
  "example_update name =
     example_request PUT [''users'', name]
       [(''Password'', ''secret''), (''Email'', ''new@example.com''),
        (''Birthday'', ''2000-02-02'')]"

definition example_signed_up :: doc where
  "example_signed_up =
     [(''_id'', Oid 0), (''Username'', Str ''alice1''), (''Password'', Str ''#secret''),
      (''Email'', Str ''a@example.com''), (''Birthday'', Str ''1999-01-01'')]"

definition example_member_with_favorite :: doc where
  "example_member_with_favorite =
     [(''_id'', Oid 1), (''id'', Str ''bob99''), (''user_name'', Str ''bob99''),
      (''Username'', Str ''bob99''), (''Password'', Str ''#hunter2''),
      (''FavoriteMovies'', Arr [Str ''m1''])]"

section \<open>Routing and store lemmas\<close>

lemma route_movies:
  "req_method req = GET \<Longrightarrow> path req = [''movies''] \<Longrightarrow>
     find_route (routes hp ie) req = Some ((GET, [Lit ''movies''], True, GETAllMovies), [])"
  by (simp add: routes_def match_path_def strip_slash_def lower_def)

lemma route_users:
  "req_method req = GET \<Longrightarrow> path req = [''users''] \<Longrightarrow>
     find_route (routes hp ie) req = Some ((GET, [Lit ''users''], True, GETAllUsers), [])"
  by (simp add: routes_def match_path_def strip_slash_def lower_def)

lemma route_title:
  "req_method req = GET \<Longrightarrow> path req = [''movies'', v] \<Longrightarrow> v \<noteq> [] \<Longrightarrow>
     find_route (routes hp ie) req =
       Some ((GET, [Lit ''movies'', Par ''title''], True, GETOneMovie), [(''title'', v)])"
  by (simp add: routes_def match_path_def strip_slash_def lower_def)

lemma route_genre:
  "req_method req = GET \<Longrightarrow> path req = [''movies'', ''genre'', v] \<Longrightarrow> v \<noteq> [] \<Longrightarrow>
     find_route (routes hp ie) req =
       Some ((GET, [Lit ''movies'', Lit ''genre'', Par ''name''], True, GETOneGenre),
             [(''name'', v)])"
  by (simp add: routes_def match_path_def strip_slash_def lower_def)

lemma route_director:
  "req_method req = GET \<Longrightarrow> path req = [''movies'', ''director'', v] \<Longrightarrow> v \<noteq> [] \<Longrightarrow>
     find_route (routes hp ie) req =
       Some ((GET, [Lit ''movies'', Lit ''director'', Par ''name''], True, GETOneDirector),
             [(''name'', v)])"
  by (simp add: routes_def match_path_def strip_slash_def lower_def)

lemma route_signup:
  "req_method req = POST \<Longrightarrow> path req = [''users''] \<Longrightarrow>
     find_route (routes hp ie) req =
       Some ((POST, [Lit ''users''], False, POSTUsers hp ie), [])"
  by (simp add: routes_def match_path_def strip_slash_def lower_def)

text \<open>Routing disregards the case of a literal and one trailing slash: \<^verbatim>\<open>GET /MOVIES/\<close>
  is routed as \<^verbatim>\<open>GET /movies\<close>.\<close>

lemma lower_MOVIES: "map lower ''MOVIES'' = ''movies''"
  by code_simp

lemma lower_movies: "map lower ''movies'' = ''movies''"
  by code_simp

lemma route_ignores_case_and_slash:
  "find_route (routes hp ie) (example_request GET [''MOVIES'', []] []) =
     Some ((GET, [Lit ''movies''], True, GETAllMovies), [])"
proof -
  have "match_path [Lit ''movies''] [''MOVIES'', []] = Some []"
    unfolding match_path_def strip_slash_def
    by (simp del: list.map add: lower_MOVIES lower_movies)
  moreover have "match_path [Lit ''documentation''] [''MOVIES'', []] = None"
    unfolding match_path_def strip_slash_def by (simp del: list.map add: lower_MOVIES)
  moreover have "match_path [] [''MOVIES'', []] = None"
    unfolding match_path_def strip_slash_def by simp
  ultimately show ?thesis
    by (simp add: routes_def example_request_def)
qed

lemma app_guarded:
  "find_route (routes hp ie) req = Some ((m, pat, True, h), ps) \<Longrightarrow>
   authenticate verify req \<Longrightarrow>
     app verify hp ie req = Some (h (req\<lparr>params := ps\<rparr>))"
  by (simp add: app_def)

lemma app_open:
  "find_route (routes hp ie) req = Some ((m, pat, False, h), ps) \<Longrightarrow>
     app verify hp ie req = Some (h (req\<lparr>params := ps\<rparr>))"
  by (simp add: app_def)

lemma matches_string:
  "matches [(k, Str v)] d = (get_path (Obj d) (split_path k) = Str v)"
  by (simp add: matches_def bson_def eq_match_def)

lemma run_findOne:
  "run mongo (Store (FindOne c flt) k) st =
     run mongo (k (Resolved (case find (matches flt) (docs c st) of
                               None \<Rightarrow> Null | Some d \<Rightarrow> Obj d))) st"
  by (simp split: option.split)

lemma split_Title: "split_path ''Title'' = [''Title'']"
  by simp

lemma split_Genre: "split_path ''Genre.Name'' = [''Genre'', ''Name'']"
  by simp

lemma split_Director: "split_path ''Director.Name'' = [''Director'', ''Name'']"
  by simp

lemma example_authenticated: "authenticate example_verify (example_request m p b)"
  by (simp add: authenticate_def example_verify_def example_request_def)

section \<open>The list routes\<close>

lemma rejected_GETAllMovies:
  "ex (Find Movies) s = (Rejected err, s') \<Longrightarrow>
     run ex (GETAllMovies r) s = (\<lparr>status = 400, payload = Text (''Error: '' @ err)\<rparr>, s')"
  by (simp add: GETAllMovies_def)

lemma run_GETAllMovies:
  "run mongo (GETAllMovies r) st =
     (\<lparr>status = 201, payload = Json (Arr (map Obj (movies st)))\<rparr>, st)"
  by (simp add: GETAllMovies_def docs_def)

lemma rejected_GETAllUsers:
  "ex (Find Users) s = (Rejected err, s') \<Longrightarrow>
     run ex (GETAllUsers r) s = (\<lparr>status = 400, payload = Text (''Error: '' @ err)\<rparr>, s')"
  by (simp add: GETAllUsers_def)

lemma run_GETAllUsers:
  "run mongo (GETAllUsers r) st =
     (\<lparr>status = 201, payload = Json (Arr (map Obj (users st)))\<rparr>, st)"
  by (simp add: GETAllUsers_def docs_def)

text \<open>
  C9. \<^verbatim>\<open>GET /movies\<close> and \<^verbatim>\<open>GET /users\<close>, on a request that passes the guard, reach their
  handlers; against the store the response is status 201 with the JSON array of all
  documents of the collection, and the store is unchanged; against any store whose
  \<^verbatim>\<open>find()\<close> is rejected with \<open>err\<close> the response is status 400 with the text
  \<^verbatim>\<open>'Error: ' + err\<close>.
\<close>

theorem list_all_documents:
  assumes "authenticate verify req" and "req_method req = GET"
    and "(path req, c, h) \<in>
           {([''movies''], Movies, GETAllMovies), ([''users''], Users, GETAllUsers)}"
  shows "app verify hashPassword isEmail req = Some (h (req\<lparr>params := []\<rparr>)) \<and>
         run mongo (h (req\<lparr>params := []\<rparr>)) st =
           (\<lparr>status = 201, payload = Json (Arr (map Obj (docs c st)))\<rparr>, st) \<and>
         (\<forall>ex s s' err. ex (Find c) s = (Rejected err, s') \<longrightarrow>
            run ex (h (req\<lparr>params := []\<rparr>)) s =
              (\<lparr>status = 400, payload = Text (''Error: '' @ err)\<rparr>, s'))"
proof -
  consider "path req = [''movies'']" "c = Movies" "h = GETAllMovies"
    | "path req = [''users'']" "c = Users" "h = GETAllUsers"
    using assms(3) by auto
  then show ?thesis
  proof cases
    case 1
    have "app verify hashPassword isEmail req = Some (GETAllMovies (req\<lparr>params := []\<rparr>))"
      by (rule app_guarded[OF route_movies[OF assms(2) 1(1)] assms(1)])
    then show ?thesis
      unfolding 1(2) 1(3)
      by (intro conjI allI impI) (simp_all add: run_GETAllMovies rejected_GETAllMovies docs_def)
  next
    case 2
    have "app verify hashPassword isEmail req = Some (GETAllUsers (req\<lparr>params := []\<rparr>))"
      by (rule app_guarded[OF route_users[OF assms(2) 2(1)] assms(1)])
    then show ?thesis
      unfolding 2(2) 2(3)
      by (intro conjI allI impI) (simp_all add: run_GETAllUsers rejected_GETAllUsers docs_def)
  qed
qed

theorem list_all_documents_witness:
  "authenticate example_verify (example_request GET [''movies''] []) \<and>
   app example_verify id (\<lambda>e. True) (example_request GET [''movies''] []) =
     Some (GETAllMovies (example_request GET [''movies''] [])) \<and>
   run mongo (GETAllMovies (example_request GET [''movies''] [])) example_db =
     (\<lparr>status = 201, payload = Json (Arr [Obj example_movie])\<rparr>, example_db) \<and>
   run (unavailable ''down'') (GETAllMovies (example_request GET [''movies''] [])) example_db =
     (\<lparr>status = 400, payload = Text ''Error: down''\<rparr>, example_db)"
proof -
  let ?req = "example_request GET [''movies''] []"
  have a: "authenticate example_verify ?req" by (rule example_authenticated)
  have m: "req_method ?req = GET" by (simp add: example_request_def)
  have p: "(path ?req, Movies, GETAllMovies) \<in>
             {([''movies''], Movies, GETAllMovies), ([''users''], Users, GETAllUsers)}"
    by (simp add: example_request_def)
  have u: "unavailable ''down'' (Find Movies) example_db = (Rejected ''down'', example_db)"
    by (simp add: unavailable_def)
  have r: "?req\<lparr>params := []\<rparr> = ?req" by (simp add: example_request_def)
  have d: "docs Movies example_db = [example_movie]"
    by (simp add: docs_def example_db_def)
  note t = list_all_documents[OF a m p, of id "\<lambda>e. True" example_db, unfolded r d]
  from t have 1: "app example_verify id (\<lambda>e. True) ?req = Some (GETAllMovies ?req)"
    by (rule conjunct1)
  from t have 2: "run mongo (GETAllMovies ?req) example_db =
     (\<lparr>status = 201, payload = Json (Arr (map Obj [example_movie]))\<rparr>, example_db)"
    by (elim conjE)
  have 3: "run (unavailable ''down'') (GETAllMovies ?req) example_db =
     (\<lparr>status = 400, payload = Text (''Error: '' @ ''down'')\<rparr>, example_db)"
    by (rule t[THEN conjunct2, THEN conjunct2, rule_format,
          of "unavailable ''down''" example_db "''down''" example_db, OF u])
  show ?thesis
    using a 1 2 3 by simp
qed

section \<open>The lookup routes\<close>

lemma run_lookup:
  "run mongo (Store (FindOne Movies [(k, Str v)]) (\<lambda>r. case r of
         Resolved movie \<Rightarrow> Respond \<lparr>status = 200, payload = Json movie\<rparr>
       | Rejected err \<Rightarrow> Respond \<lparr>status = 500, payload = Text (''Error: '' @ err)\<rparr>)) st =
     (\<lparr>status = 200,
        payload = Json (case find (\<lambda>m. get_path (Obj m) (split_path k) = Str v) (movies st) of
                          None \<Rightarrow> Null | Some m \<Rightarrow> Obj m)\<rparr>, st)"
  unfolding run_findOne by (simp add: matches_string[abs_def] docs_def)

lemma run_GETOneMovie:
  "run mongo (GETOneMovie (req\<lparr>params := [(''title'', v)]\<rparr>)) st =
     (\<lparr>status = 200,
        payload = Json (case find (\<lambda>m. get_path (Obj m) [''Title''] = Str v) (movies st) of
                          None \<Rightarrow> Null | Some m \<Rightarrow> Obj m)\<rparr>, st)"
proof -
  have "GETOneMovie (req\<lparr>params := [(''title'', v)]\<rparr>) =
        Store (FindOne Movies [(''Title'', Str v)]) (\<lambda>r. case r of
           Resolved movie \<Rightarrow> Respond \<lparr>status = 200, payload = Json movie\<rparr>
         | Rejected err \<Rightarrow> Respond \<lparr>status = 500, payload = Text (''Error: '' @ err)\<rparr>)"
    by (simp add: GETOneMovie_def req_params_def js_def)
  then show ?thesis
    by (simp only: run_lookup split_Title)
qed

lemma run_GETOneGenre:
  "run mongo (GETOneGenre (req\<lparr>params := [(''name'', v)]\<rparr>)) st =
     (\<lparr>status = 200,
        payload = Json (case find (\<lambda>m. get_path (Obj m) [''Genre'', ''Name''] = Str v) (movies st) of
                          None \<Rightarrow> Null | Some m \<Rightarrow> Obj m)\<rparr>, st)"
proof -
  have "GETOneGenre (req\<lparr>params := [(''name'', v)]\<rparr>) =
        Store (FindOne Movies [(''Genre.Name'', Str v)]) (\<lambda>r. case r of
           Resolved movie \<Rightarrow> Respond \<lparr>status = 200, payload = Json movie\<rparr>
         | Rejected err \<Rightarrow> Respond \<lparr>status = 500, payload = Text (''Error: '' @ err)\<rparr>)"
    by (simp add: GETOneGenre_def req_params_def js_def)
  then show ?thesis
    by (simp only: run_lookup split_Genre)
qed

lemma run_GETOneDirector:
  "run mongo (GETOneDirector (req\<lparr>params := [(''name'', v)]\<rparr>)) st =
     (\<lparr>status = 200,
        payload = Json (case find (\<lambda>m. get_path (Obj m) [''Director'', ''Name''] = Str v) (movies st) of
                          None \<Rightarrow> Null | Some m \<Rightarrow> Obj m)\<rparr>, st)"
proof -
  have "GETOneDirector (req\<lparr>params := [(''name'', v)]\<rparr>) =
        Store (FindOne Movies [(''Director.Name'', Str v)]) (\<lambda>r. case r of
           Resolved movie \<Rightarrow> Respond \<lparr>status = 200, payload = Json movie\<rparr>
         | Rejected err \<Rightarrow> Respond \<lparr>status = 500, payload = Text (''Error: '' @ err)\<rparr>)"
    by (simp add: GETOneDirector_def req_params_def js_def)
  then show ?thesis
    by (simp only: run_lookup split_Director)
qed

text \<open>A path of three segments whose second is neither \<^verbatim>\<open>genre\<close> nor \<^verbatim>\<open>director\<close>, such
  as \<^verbatim>\<open>/movies/title/Inception\<close>, matches no \<^verbatim>\<open>GET\<close> route of \<^verbatim>\<open>index.js\<close>.\<close>

lemma title_prefix_unrouted:
  "find_route (routes hp ie) (example_request GET [''movies'', ''title'', ''Inception''] []) = None"
  by (simp add: routes_def match_path_def strip_slash_def lower_def example_request_def)

text \<open>
  C7. The three lookups (\<^verbatim>\<open>GET /movies/:title\<close>, \<^verbatim>\<open>GET /movies/genre/:name\<close>,
  \<^verbatim>\<open>GET /movies/director/:name\<close>), on a request that passes the guard: the response is
  always status 200; its body is \<^verbatim>\<open>null\<close> when no movie has the value under the looked-up
  field, and the first movie that has it otherwise. The store is unchanged.
\<close>

theorem lookup_null_when_absent:
  assumes "authenticate verify req" and "req_method req = GET" and "v \<noteq> []"
    and "(path req, name, key, h) \<in>
           {([''movies'', v], ''title'', [''Title''], GETOneMovie),
            ([''movies'', ''genre'', v], ''name'', [''Genre'', ''Name''], GETOneGenre),
            ([''movies'', ''director'', v], ''name'', [''Director'', ''Name''], GETOneDirector)}"
  shows "app verify hashPassword isEmail req = Some (h (req\<lparr>params := [(name, v)]\<rparr>)) \<and>
         run mongo (h (req\<lparr>params := [(name, v)]\<rparr>)) st =
           (\<lparr>status = 200,
              payload = Json (case find (\<lambda>m. get_path (Obj m) key = Str v) (movies st) of
                                None \<Rightarrow> Null | Some m \<Rightarrow> Obj m)\<rparr>, st)"
proof -
  consider
      "path req = [''movies'', v]" "name = ''title''" "key = [''Title'']" "h = GETOneMovie"
    | "path req = [''movies'', ''genre'', v]" "name = ''name''" "key = [''Genre'', ''Name'']"
      "h = GETOneGenre"
    | "path req = [''movies'', ''director'', v]" "name = ''name''"
      "key = [''Director'', ''Name'']" "h = GETOneDirector"
    using assms(4) by auto
  then show ?thesis
  proof cases
    case 1
    have "app verify hashPassword isEmail req = Some (GETOneMovie (req\<lparr>params := [(''title'', v)]\<rparr>))"
      by (rule app_guarded[OF route_title[OF assms(2) 1(1) assms(3)] assms(1)])
    then show ?thesis
      unfolding 1(2,3,4) by (simp only: run_GETOneMovie simp_thms)
  next
    case 2
    have "app verify hashPassword isEmail req = Some (GETOneGenre (req\<lparr>params := [(''name'', v)]\<rparr>))"
      by (rule app_guarded[OF route_genre[OF assms(2) 2(1) assms(3)] assms(1)])
    then show ?thesis
      unfolding 2(2,3,4) by (simp only: run_GETOneGenre simp_thms)
  next
    case 3
    have "app verify hashPassword isEmail req = Some (GETOneDirector (req\<lparr>params := [(''name'', v)]\<rparr>))"
      by (rule app_guarded[OF route_director[OF assms(2) 3(1) assms(3)] assms(1)])
    then show ?thesis
      unfolding 3(2,3,4) by (simp only: run_GETOneDirector simp_thms)
  qed
qed

theorem lookup_null_when_absent_witness:
  "authenticate example_verify (example_request GET [''movies'', ''Inception''] []) \<and>
   run mongo (GETOneMovie ((example_request GET [''movies'', ''Inception''] [])
        \<lparr>params := [(''title'', ''Inception'')]\<rparr>)) example_db =
     (\<lparr>status = 200, payload = Json Null\<rparr>, example_db) \<and>
   run mongo (GETOneMovie ((example_request GET [''movies'', ''Up''] [])
        \<lparr>params := [(''title'', ''Up'')]\<rparr>)) example_db =
     (\<lparr>status = 200, payload = Json (Obj example_movie)\<rparr>, example_db)"
proof -
  have a: "\<And>t. authenticate example_verify (example_request GET [''movies'', t] [])"
    by (rule example_authenticated)
  have m: "\<And>t. req_method (example_request GET [''movies'', t] []) = GET"
    by (simp add: example_request_def)
  have p: "\<And>t. (path (example_request GET [''movies'', t] []), ''title'', [''Title''], GETOneMovie) \<in>
           {([''movies'', t], ''title'', [''Title''], GETOneMovie),
            ([''movies'', ''genre'', t], ''name'', [''Genre'', ''Name''], GETOneGenre),
            ([''movies'', ''director'', t], ''name'', [''Director'', ''Name''], GETOneDirector)}"
    by (simp add: example_request_def)
  have f: "find (\<lambda>m. get_path (Obj m) [''Title''] = Str ''Inception'') (movies example_db) = None"
    by (simp add: example_db_def example_movie_def)
  have g: "find (\<lambda>m. get_path (Obj m) [''Title''] = Str ''Up'') (movies example_db) =
      Some example_movie"
    by (simp add: example_db_def example_movie_def)
  have 1: "run mongo (GETOneMovie ((example_request GET [''movies'', ''Inception''] [])
        \<lparr>params := [(''title'', ''Inception'')]\<rparr>)) example_db =
     (\<lparr>status = 200, payload = Json Null\<rparr>, example_db)"
    using lookup_null_when_absent[OF a m _ p, of "''Inception''" id "\<lambda>e. True" example_db,
        unfolded f, THEN conjunct2]
    by simp
  have 2: "run mongo (GETOneMovie ((example_request GET [''movies'', ''Up''] [])
        \<lparr>params := [(''title'', ''Up'')]\<rparr>)) example_db =
     (\<lparr>status = 200, payload = Json (Obj example_movie)\<rparr>, example_db)"
    using lookup_null_when_absent[OF a m _ p, of "''Up''" id "\<lambda>e. True" example_db,
        unfolded g, THEN conjunct2]
    by simp
  show ?thesis
    using a 1 2 by simp
qed

section \<open>Signup\<close>

lemma req_body_params: "req_body (req\<lparr>params := ps\<rparr>) = req_body req"
  by (simp add: req_body_def fun_eq_iff)

lemma req_headers_params: "req_headers (req\<lparr>params := ps\<rparr>) = req_headers req"
  by (simp add: req_headers_def fun_eq_iff)

lemma req_query_params: "req_query (req\<lparr>params := ps\<rparr>) = req_query req"
  by (simp add: req_query_def fun_eq_iff)

lemma req_params_none: "req_params (req\<lparr>params := []\<rparr>) f = None"
  by (simp add: req_params_def)

lemma validationResult_eq:
  "validationResult isEmail req =
     chain_errors req (''Username'', ''Username is required'', isLength 5) @
     chain_errors req (''Username'',
       ''Username contains non alphanumeric characters - not allowed.'', isAlphanumeric) @
     chain_errors req (''Password'', ''Password is required'', \<lambda>s. \<not> isEmpty s) @
     chain_errors req (''Email'', ''Email does not appear to be valid'', isEmail)"
  by (simp add: validationResult_def checks_def)

lemma selected_body_only:
  assumes "req_headers req (map lower f) = None" and "req_params req f = None"
    and "req_query req f = None"
  shows "selected req f = [(''body'', req_body req f)]"
  using assms
  by (cases "req_body req f")
     (simp_all add: selected_def instances_def locations_def location_value_def)

lemma chain_errors_body_only:
  assumes "req_headers req (map lower f) = None" and "req_params req f = None"
    and "req_query req f = None"
  shows "chain_errors req (f, m, ok) =
           (if \<not> ok (field_string (req_body req f)) then [(req_body req f, m, f, ''body'')]
            else [])"
  by (simp add: chain_errors_def selected_body_only[OF assms])

lemma POSTUsers_invalid:
  "validationResult isEmail req \<noteq> [] \<Longrightarrow>
     POSTUsers hashPassword isEmail req =
       Respond \<lparr>status = 422,
         payload = Json (Obj [(''errors'', Arr (map error_json (validationResult isEmail req)))])\<rparr>"
  by (simp add: POSTUsers_def)

text \<open>
  Whatever the request, when some chain fails on some value it selected, the answer is
  status 422 with all errors, and the handler makes no store call.
\<close>

lemma signup_rejects_failed_occurrences:
  assumes "req_method req = POST" and "path req = [''users'']"
    and "validationResult isEmail (req\<lparr>params := []\<rparr>) \<noteq> []"
  shows "app verify hashPassword isEmail req =
           Some (Respond \<lparr>status = 422, payload = Json (Obj [(''errors'',
             Arr (map error_json (validationResult isEmail (req\<lparr>params := []\<rparr>))))])\<rparr>)"
proof -
  have "app verify hashPassword isEmail req =
      Some (POSTUsers hashPassword isEmail (req\<lparr>params := []\<rparr>))"
    by (rule app_open[OF route_signup[OF assms(1,2)]])
  then show ?thesis
    by (simp only: POSTUsers_invalid[OF assms(3)])
qed

text \<open>
  C2, as amended. A \<^verbatim>\<open>POST /users\<close> request that carries Username, Password and Email in
  its body only (no header or query entry of these names), and whose body violates a rule
  (Username shorter than 5 characters, which includes a missing one; Username not
  alphanumeric; Password empty; Email refused by \<^verbatim>\<open>isEmail\<close>), is answered with status 422
  and the list of one error for each violated rule, in the order of the rules, each with
  the body's value, the rule's message, the field and the location \<^verbatim>\<open>body\<close>. The handler
  responds without a store call: no call is made and the store's state is unchanged,
  whatever the store.
\<close>

theorem signup_rejects_body_violations:
  assumes "req_method req = POST" and "path req = [''users'']"
    and "\<forall>f \<in> {''Username'', ''Password'', ''Email''}.
           req_headers req (map lower f) = None \<and> req_query req f = None"
    and "u = req_body req ''Username''"
    and "p = req_body req ''Password''"
    and "e = req_body req ''Email''"
    and "length (field_string u) < 5 \<or> \<not> isAlphanumeric (field_string u) \<or>
         field_string p = [] \<or> \<not> isEmail (field_string e)"
    and "errors =
       (if length (field_string u) < 5
        then [(u, ''Username is required'', ''Username'', ''body'')] else []) @
       (if \<not> isAlphanumeric (field_string u)
        then [(u, ''Username contains non alphanumeric characters - not allowed.'',
               ''Username'', ''body'')]
        else []) @
       (if field_string p = []
        then [(p, ''Password is required'', ''Password'', ''body'')] else []) @
       (if \<not> isEmail (field_string e)
        then [(e, ''Email does not appear to be valid'', ''Email'', ''body'')] else [])"
    and "r = \<lparr>status = 422, payload = Json (Obj [(''errors'', Arr (map error_json errors))])\<rparr>"
  shows "errors \<noteq> [] \<and>
         app verify hashPassword isEmail req = Some (Respond r) \<and>
         store_calls ex (Respond r) st = [] \<and>
         run ex (Respond r) st = (r, st)"
proof -
  let ?req = "req\<lparr>params := []\<rparr>"
  have only: "req_headers ?req (map lower f) = None" "req_params ?req f = None"
      "req_query ?req f = None"
    if "f \<in> {''Username'', ''Password'', ''Email''}" for f
    using assms(3) that
    by (simp_all only: req_headers_params req_query_params req_params_none)
  have cu: "chain_errors ?req (''Username'', m, ok) =
      (if \<not> ok (field_string u) then [(u, m, ''Username'', ''body'')] else [])" for m ok
    using chain_errors_body_only[OF only, of "''Username''" m ok]
    by (simp add: req_body_params assms(4))
  have cp: "chain_errors ?req (''Password'', m, ok) =
      (if \<not> ok (field_string p) then [(p, m, ''Password'', ''body'')] else [])" for m ok
    using chain_errors_body_only[OF only, of "''Password''" m ok]
    by (simp add: req_body_params assms(5))
  have ce: "chain_errors ?req (''Email'', m, ok) =
      (if \<not> ok (field_string e) then [(e, m, ''Email'', ''body'')] else [])" for m ok
    using chain_errors_body_only[OF only, of "''Email''" m ok]
    by (simp add: req_body_params assms(6))
  have v: "validationResult isEmail ?req = errors"
    unfolding assms(8) validationResult_eq cu cp ce
    by (simp add: isLength_def isEmpty_def not_le)
  have ne: "errors \<noteq> []"
    using assms(7) unfolding assms(8) by auto
  have "app verify hashPassword isEmail req = Some (Respond r)"
    using signup_rejects_failed_occurrences[OF assms(1,2), of isEmail verify hashPassword] ne
    unfolding v assms(9) by simp
  then show ?thesis
    using ne by simp
qed

lemma example_request_plain:
  "req_headers (example_request m p b) f = None"
  "req_query (example_request m p b) f = None"
  "req_params (example_request m p b) f = None"
  "req_body (example_request m p b) f = map_of b f"
  "req_method (example_request m p b) = m"
  "path (example_request m p b) = p"
  "(example_request m p b)\<lparr>params := []\<rparr> = example_request m p b"
  by (simp_all add: example_request_def req_headers_def req_query_def req_params_def
      req_body_def)

theorem signup_rejects_body_violations_witness:
  "length (field_string (req_body (example_request POST [''users'']
       [(''Username'', ''al!''), (''Password'', []), (''Email'', ''nope'')]) ''Username'')) < 5 \<and>
   app example_verify example_hash example_isEmail
     (example_request POST [''users'']
       [(''Username'', ''al!''), (''Password'', []), (''Email'', ''nope'')]) =
     Some (Respond \<lparr>status = 422, payload = Json (Obj [(''errors'', Arr
       [Obj [(''value'', Str ''al!''), (''msg'', Str ''Username is required''),
             (''param'', Str ''Username''), (''location'', Str ''body'')],
        Obj [(''value'', Str ''al!''),
             (''msg'', Str ''Username contains non alphanumeric characters - not allowed.''),
             (''param'', Str ''Username''), (''location'', Str ''body'')],
        Obj [(''value'', Str []), (''msg'', Str ''Password is required''),
             (''param'', Str ''Password''), (''location'', Str ''body'')],
        Obj [(''value'', Str ''nope''), (''msg'', Str ''Email does not appear to be valid''),
             (''param'', Str ''Email''), (''location'', Str ''body'')]])])\<rparr>)"
proof -
  let ?req = "example_request POST [''users'']
       [(''Username'', ''al!''), (''Password'', []), (''Email'', ''nope'')]"
  have o: "\<forall>f \<in> {''Username'', ''Password'', ''Email''}.
      req_headers ?req (map lower f) = None \<and> req_query ?req f = None"
    by (simp add: example_request_plain)
  have u: "req_body ?req ''Username'' = Some ''al!''"
    and w: "req_body ?req ''Password'' = Some []"
    and e: "req_body ?req ''Email'' = Some ''nope''"
    by (simp_all add: example_request_plain)
  have a: "\<not> isAlphanumeric ''al!''"
    by (simp add: isAlphanumeric_def alnum_def)
  have i: "\<not> example_isEmail ''nope''"
    by (simp add: example_isEmail_def)
  have v: "length (field_string (req_body ?req ''Username'')) < 5 \<or>
      \<not> isAlphanumeric (field_string (req_body ?req ''Username'')) \<or>
      field_string (req_body ?req ''Password'') = [] \<or>
      \<not> example_isEmail (field_string (req_body ?req ''Email''))"
    unfolding u by (simp add: field_string_def)
  note t = signup_rejects_body_violations[where isEmail = example_isEmail and req = "?req"
      and verify = example_verify and hashPassword = example_hash and ex = mongo
      and st = example_db, OF example_request_plain(5,6) o refl refl refl v refl refl,
      THEN conjunct2, THEN conjunct1]
  show ?thesis
    using t unfolding u w e by (simp add: a i error_json_def field_string_def js_def)
qed

lemma example_query_signup_fields:
  "req_method example_query_signup = POST"
  "path example_query_signup = [''users'']"
  "example_query_signup\<lparr>params := []\<rparr> = example_query_signup"
  "req_body example_query_signup ''Username'' = None"
  "req_body example_query_signup ''Password'' = Some ''secret''"
  "req_body example_query_signup ''Email'' = Some ''a@example.com''"
  "req_body example_query_signup ''Birthday'' = None"
  "req_query example_query_signup ''Username'' = Some ''alice1''"
  by (simp_all add: example_query_signup_def example_request_def req_body_def req_query_def)

lemma example_query_signup_selected:
  "selected example_query_signup ''Username'' = [(''query'', Some ''alice1'')]"
  "selected example_query_signup ''Password'' = [(''body'', Some ''secret'')]"
  "selected example_query_signup ''Email'' = [(''body'', Some ''a@example.com'')]"
  by (simp_all add: selected_def instances_def locations_def location_value_def
      example_query_signup_def example_request_def req_body_def req_query_def
      req_headers_def req_params_def)

lemma example_query_signup_valid:
  "validationResult example_isEmail example_query_signup = []"
  by (simp add: validationResult_eq chain_errors_def example_query_signup_selected
      field_string_def isLength_def isEmpty_def isAlphanumeric_def alnum_def
      example_isEmail_def)

lemma example_query_signup_routed:
  "app example_verify example_hash example_isEmail example_query_signup =
     Some (POSTUsers example_hash example_isEmail example_query_signup)"
  using app_open[OF route_signup[OF example_query_signup_fields(1,2)],
      where hp = example_hash and ie = example_isEmail and verify = example_verify]
  by (simp only: example_query_signup_fields(3))

lemma matches_undefined:
  "matches [(k, Undefined)] d =
     (get_path (Obj d) (split_path k) = Null \<or> get_path (Obj d) (split_path k) = Undefined)"
  by (simp add: matches_def bson_def eq_match_def)

text \<open>
  C2, the claim as stated, fails on a request that carries the Username in its query
  string only: the body has no Username, which violates the first rule, yet validation
  passes on the query's value; the handler calls \<^verbatim>\<open>findOne\<close> and \<^verbatim>\<open>create\<close>, a record is
  stored and the response is status 201, not 422.
\<close>

theorem signup_body_violation_counterexample:
  "req_body example_query_signup ''Username'' = None \<and>
   length (field_string (req_body example_query_signup ''Username'')) < 5 \<and>
   app example_verify example_hash example_isEmail example_query_signup =
     Some (POSTUsers example_hash example_isEmail example_query_signup) \<and>
   store_calls mongo (POSTUsers example_hash example_isEmail example_query_signup)
       example_empty_db =
     [FindOne Users [(''Username'', Undefined)],
      Create Users
        [(''Username'', Undefined), (''Password'', Str ''#secret''),
         (''Email'', Str ''a@example.com''), (''Birthday'', Undefined)]] \<and>
   run mongo (POSTUsers example_hash example_isEmail example_query_signup) example_empty_db =
     (\<lparr>status = 201, payload = Json (Obj
        [(''_id'', Oid 0), (''Password'', Str ''#secret''),
         (''Email'', Str ''a@example.com'')])\<rparr>,
      \<lparr>movies = [],
         users = [[(''_id'', Oid 0), (''Password'', Str ''#secret''),
                   (''Email'', Str ''a@example.com'')]],
         next_id = 1\<rparr>)"
proof (intro conjI)
  show "req_body example_query_signup ''Username'' = None"
    by (rule example_query_signup_fields)
  show "length (field_string (req_body example_query_signup ''Username'')) < 5"
    by (simp add: example_query_signup_fields field_string_def)
  show "app example_verify example_hash example_isEmail example_query_signup =
     Some (POSTUsers example_hash example_isEmail example_query_signup)"
    by (rule example_query_signup_routed)
  show "store_calls mongo (POSTUsers example_hash example_isEmail example_query_signup)
       example_empty_db =
     [FindOne Users [(''Username'', Undefined)],
      Create Users
        [(''Username'', Undefined), (''Password'', Str ''#secret''),
         (''Email'', Str ''a@example.com''), (''Birthday'', Undefined)]]"
    by (simp add: POSTUsers_def example_query_signup_valid example_query_signup_fields
        example_hash_def js_def js_string_def matches_undefined docs_def put_docs_def
        example_empty_db_def Let_def)
  show "run mongo (POSTUsers example_hash example_isEmail example_query_signup)
       example_empty_db =
     (\<lparr>status = 201, payload = Json (Obj
        [(''_id'', Oid 0), (''Password'', Str ''#secret''),
         (''Email'', Str ''a@example.com'')])\<rparr>,
      \<lparr>movies = [],
         users = [[(''_id'', Oid 0), (''Password'', Str ''#secret''),
                   (''Email'', Str ''a@example.com'')]],
         next_id = 1\<rparr>)"
    by (simp add: POSTUsers_def example_query_signup_valid example_query_signup_fields
        example_hash_def js_def js_string_def matches_undefined docs_def put_docs_def
        example_empty_db_def Let_def)
qed

lemma split_Username: "split_path ''Username'' = [''Username'']"
  by simp

lemma find_username:
  "find (matches [(''Username'', Str u)]) ds =
     find (\<lambda>d. get_field (Obj d) ''Username'' = Str u) ds"
  by (simp only: matches_string[abs_def] split_Username get_path.simps)

lemma run_POSTUsers_taken:
  assumes "validationResult isEmail req = []"
    and "req_body req ''Username'' = Some u"
    and "hashPassword (req_body req ''Password'') = Some hashed"
    and "find (\<lambda>d. get_field (Obj d) ''Username'' = Str u) (users st) = Some d"
  shows "run mongo (POSTUsers hashPassword isEmail req) st =
           (\<lparr>status = 400, payload = Text (u @ ''already exists'')\<rparr>, st)"
proof -
  have ju: "js (req_body req ''Username'') = Str u"
    and su: "js_string (req_body req ''Username'') = u"
    using assms(2) by (simp_all add: js_def js_string_def)
  show ?thesis
    using assms(1,3,4) by (simp add: POSTUsers_def ju su find_username docs_def)
qed

lemma run_POSTUsers_free:
  assumes "validationResult isEmail req = []"
    and "req_body req ''Username'' = Some u"
    and "hashPassword (req_body req ''Password'') = Some hashed"
    and "find (\<lambda>d. get_field (Obj d) ''Username'' = Str u) (users st) = None"
    and "created = (''_id'', Oid (next_id st)) #
           filter (\<lambda>(k, v). v \<noteq> Undefined)
             [(''Username'', Str u),
              (''Password'', Str hashed),
              (''Email'', js (req_body req ''Email'')),
              (''Birthday'', js (req_body req ''Birthday''))]"
  shows "run mongo (POSTUsers hashPassword isEmail req) st =
           (\<lparr>status = 201, payload = Json (Obj created)\<rparr>,
            st\<lparr>users := users st @ [created], next_id := Suc (next_id st)\<rparr>)"
proof -
  have ju: "js (req_body req ''Username'') = Str u"
    using assms(2) by (simp add: js_def)
  show ?thesis
    using assms(1,3,4) unfolding assms(5)
    by (simp add: POSTUsers_def ju find_username put_docs_def docs_def Let_def)
qed

lemma example_signup_fields:
  "req_method example_signup = POST"
  "path example_signup = [''users'']"
  "example_signup\<lparr>params := []\<rparr> = example_signup"
  "req_body example_signup ''Username'' = Some ''alice1''"
  "req_body example_signup ''Password'' = Some ''secret''"
  "req_body example_signup ''Email'' = Some ''a@example.com''"
  "req_body example_signup ''Birthday'' = Some ''1999-01-01''"
  by (simp_all add: example_signup_def example_request_def req_body_def)

lemma example_signup_valid: "validationResult example_isEmail example_signup = []"
proof -
  have o: "req_headers example_signup (map lower f) = None"
    "req_params example_signup f = None" "req_query example_signup f = None" for f
    by (simp_all add: example_signup_def example_request_plain)
  show ?thesis
    by (simp add: validationResult_eq chain_errors_body_only[OF o] example_signup_fields
        field_string_def isLength_def isEmpty_def isAlphanumeric_def alnum_def
        example_isEmail_def)
qed

text \<open>
  C3, as amended. A \<^verbatim>\<open>POST /users\<close> request that passes validation, carries its Username
  in the body, and whose password \<^verbatim>\<open>hashPassword\<close> hashes: when a stored user has that
  Username the response is status 400 with the text of the Username followed by
  \<^verbatim>\<open>already exists\<close> and the store is unchanged; otherwise one document is appended to
  the users (the submitted fields, with the hashed password) and the response is status 201
  with that document.
\<close>

theorem signup_duplicate_or_create:
  assumes "req_method req = POST" and "path req = [''users'']"
    and "validationResult isEmail (req\<lparr>params := []\<rparr>) = []"
    and "req_body req ''Username'' = Some u"
    and "hashPassword (req_body req ''Password'') = Some hashed"
    and "created = (''_id'', Oid (next_id st)) #
           filter (\<lambda>(k, v). v \<noteq> Undefined)
             [(''Username'', Str u),
              (''Password'', Str hashed),
              (''Email'', js (req_body req ''Email'')),
              (''Birthday'', js (req_body req ''Birthday''))]"
  shows "app verify hashPassword isEmail req =
           Some (POSTUsers hashPassword isEmail (req\<lparr>params := []\<rparr>)) \<and>
         run mongo (POSTUsers hashPassword isEmail (req\<lparr>params := []\<rparr>)) st =
           (if \<exists>d \<in> set (users st). get_field (Obj d) ''Username'' = Str u
            then (\<lparr>status = 400, payload = Text (u @ ''already exists'')\<rparr>, st)
            else (\<lparr>status = 201, payload = Json (Obj created)\<rparr>,
                  st\<lparr>users := users st @ [created], next_id := Suc (next_id st)\<rparr>))"
proof -
  let ?req = "req\<lparr>params := []\<rparr>"
  have a: "app verify hashPassword isEmail req = Some (POSTUsers hashPassword isEmail ?req)"
    by (rule app_open[OF route_signup[OF assms(1,2)]])
  have n: "req_body ?req ''Username'' = Some u"
    using assms(4) by (simp add: req_body_params)
  have h: "hashPassword (req_body ?req ''Password'') = Some hashed"
    using assms(5) by (simp add: req_body_params)
  have c: "created = (''_id'', Oid (next_id st)) #
           filter (\<lambda>(k, v). v \<noteq> Undefined)
             [(''Username'', Str u),
              (''Password'', Str hashed),
              (''Email'', js (req_body ?req ''Email'')),
              (''Birthday'', js (req_body ?req ''Birthday''))]"
    unfolding assms(6) by (simp only: req_body_params)
  show ?thesis
  proof (cases "find (\<lambda>d. get_field (Obj d) ''Username'' = Str u) (users st)")
    case None
    then have "\<not> (\<exists>d \<in> set (users st). get_field (Obj d) ''Username'' = Str u)"
      by (simp add: find_None_iff)
    then show ?thesis
      using a run_POSTUsers_free[where hashPassword = hashPassword, OF assms(3) n h None c]
      by simp
  next
    case (Some d)
    then have "\<exists>d \<in> set (users st). get_field (Obj d) ''Username'' = Str u"
      by (auto simp: find_Some_iff)
    then show ?thesis
      using a run_POSTUsers_taken[where hashPassword = hashPassword, OF assms(3) n h Some]
      by simp
  qed
qed

theorem signup_duplicate_or_create_witness:
  "validationResult example_isEmail example_signup = [] \<and>
   run mongo (POSTUsers example_hash example_isEmail example_signup) example_db =
     (\<lparr>status = 400, payload = Text ''alice1already exists''\<rparr>, example_db) \<and>
   run mongo (POSTUsers example_hash example_isEmail example_signup) example_empty_db =
     (\<lparr>status = 201, payload = Json (Obj
        [(''_id'', Oid 0), (''Username'', Str ''alice1''), (''Password'', Str ''#secret''),
         (''Email'', Str ''a@example.com''), (''Birthday'', Str ''1999-01-01'')])\<rparr>,
      \<lparr>movies = [],
         users = [[(''_id'', Oid 0), (''Username'', Str ''alice1''),
                   (''Password'', Str ''#secret''), (''Email'', Str ''a@example.com''),
                   (''Birthday'', Str ''1999-01-01'')]],
         next_id = 1\<rparr>)"
proof -
  have v: "validationResult example_isEmail (example_signup\<lparr>params := []\<rparr>) = []"
    by (simp only: example_signup_fields(3) example_signup_valid)
  have h: "example_hash (req_body example_signup ''Password'') = Some ''#secret''"
    by (simp add: example_signup_fields example_hash_def)
  note t = signup_duplicate_or_create[where isEmail = example_isEmail
      and hashPassword = example_hash and verify = example_verify and req = example_signup,
      OF example_signup_fields(1,2) v example_signup_fields(4) h refl, THEN conjunct2,
      unfolded example_signup_fields]
  have 1: "run mongo (POSTUsers example_hash example_isEmail example_signup) example_db =
     (\<lparr>status = 400, payload = Text ''alice1already exists''\<rparr>, example_db)"
    using t[of example_db]
    by (simp add: example_db_def example_user_def)
  have 2: "run mongo (POSTUsers example_hash example_isEmail example_signup) example_empty_db =
     (\<lparr>status = 201, payload = Json (Obj
        [(''_id'', Oid 0), (''Username'', Str ''alice1''), (''Password'', Str ''#secret''),
         (''Email'', Str ''a@example.com''), (''Birthday'', Str ''1999-01-01'')])\<rparr>,
      \<lparr>movies = [],
         users = [[(''_id'', Oid 0), (''Username'', Str ''alice1''),
                   (''Password'', Str ''#secret''), (''Email'', Str ''a@example.com''),
                   (''Birthday'', Str ''1999-01-01'')]],
         next_id = 1\<rparr>)"
    using t[of example_empty_db]
    by (simp add: example_empty_db_def js_def)
  show ?thesis
    using example_signup_valid 1 2 by simp
qed

text \<open>
  C3, the claim as stated, fails on a request that passes validation with its Username
  in the query string: \<^verbatim>\<open>alice1\<close> names a stored user, but the handler looks up
  \<^verbatim>\<open>req.body.Username\<close>, which is \<^verbatim>\<open>undefined\<close>; no stored user lacks a Username, so the
  handler calls \<^verbatim>\<open>create\<close>, a second record is stored and the response is status 201,
  not 400.
\<close>

theorem signup_query_username_counterexample:
  "validationResult example_isEmail example_query_signup = [] \<and>
   req_query example_query_signup ''Username'' = Some ''alice1'' \<and>
   get_field (Obj example_user) ''Username'' = Str ''alice1'' \<and>
   store_calls mongo (POSTUsers example_hash example_isEmail example_query_signup) example_db =
     [FindOne Users [(''Username'', Undefined)],
      Create Users
        [(''Username'', Undefined), (''Password'', Str ''#secret''),
         (''Email'', Str ''a@example.com''), (''Birthday'', Undefined)]] \<and>
   run mongo (POSTUsers example_hash example_isEmail example_query_signup) example_db =
     (\<lparr>status = 201, payload = Json (Obj
        [(''_id'', Oid 8), (''Password'', Str ''#secret''),
         (''Email'', Str ''a@example.com'')])\<rparr>,
      \<lparr>movies = [example_movie],
         users = [example_user,
                  [(''_id'', Oid 8), (''Password'', Str ''#secret''),
                   (''Email'', Str ''a@example.com'')]],
         next_id = 9\<rparr>)"
proof (intro conjI)
  show "validationResult example_isEmail example_query_signup = []"
    by (rule example_query_signup_valid)
  show "req_query example_query_signup ''Username'' = Some ''alice1''"
    by (rule example_query_signup_fields)
  show "get_field (Obj example_user) ''Username'' = Str ''alice1''"
    by (simp add: example_user_def)
  show "store_calls mongo (POSTUsers example_hash example_isEmail example_query_signup)
       example_db =
     [FindOne Users [(''Username'', Undefined)],
      Create Users
        [(''Username'', Undefined), (''Password'', Str ''#secret''),
         (''Email'', Str ''a@example.com''), (''Birthday'', Undefined)]]"
    by (simp add: POSTUsers_def example_query_signup_valid example_query_signup_fields
        example_hash_def js_def js_string_def matches_undefined docs_def put_docs_def
        example_db_def example_user_def Let_def)
  show "run mongo (POSTUsers example_hash example_isEmail example_query_signup) example_db =
     (\<lparr>status = 201, payload = Json (Obj
        [(''_id'', Oid 8), (''Password'', Str ''#secret''),
         (''Email'', Str ''a@example.com'')])\<rparr>,
      \<lparr>movies = [example_movie],
         users = [example_user,
                  [(''_id'', Oid 8), (''Password'', Str ''#secret''),
                   (''Email'', Str ''a@example.com'')]],
         next_id = 9\<rparr>)"
    by (simp add: POSTUsers_def example_query_signup_valid example_query_signup_fields
        example_hash_def js_def js_string_def matches_undefined docs_def put_docs_def
        example_db_def example_user_def Let_def)
qed

section \<open>The guard\<close>

lemma find_route_mem:
  "find_route rs req = Some (r, ps) \<Longrightarrow> r \<in> set rs"
  by (induction rs req rule: find_route.induct) (auto split: if_splits option.splits)

lemma routes_guarded:
  "(m, pat, auth, h) \<in> set (routes hp ie) \<Longrightarrow>
     auth = ((m, pat) \<notin> {(GET, []), (GET, [Lit ''documentation'']), (POST, [Lit ''users''])})"
  by (auto simp: routes_def)

lemma app_rejected:
  "find_route (routes hp ie) req = Some ((m, pat, True, h), ps) \<Longrightarrow>
   \<not> authenticate verify req \<Longrightarrow>
     app verify hp ie req = Some (Respond unauthorized)"
  by (simp add: app_def)

lemma not_authenticated_iff:
  "(\<not> authenticate verify req) =
     (authorization req = None \<or> (\<exists>t. authorization req = Some t \<and> \<not> verify t))"
  by (cases "authorization req") (simp_all add: authenticate_def)

lemma route_unregister:
  "req_method req = DELETE \<Longrightarrow> path req = [''users'', v, ''unregister''] \<Longrightarrow> v \<noteq> [] \<Longrightarrow>
     find_route (routes hp ie) req =
       Some ((DELETE, [Lit ''users'', Par ''id'', Lit ''unregister''], True, DELETEUserAccount),
             [(''id'', v)])"
  by (simp add: routes_def match_path_def strip_slash_def lower_def)

lemma route_root:
  "req_method req = GET \<Longrightarrow> path req = [] \<Longrightarrow>
     find_route (routes hp ie) req = Some ((GET, [], False, GETRoot), [])"
  by (simp add: routes_def match_path_def strip_slash_def lower_def)

text \<open>
  C4. For a request that a route of \<^verbatim>\<open>index.js\<close> matches: the route carries the guard
  exactly when it is none of \<^verbatim>\<open>GET /\<close>, \<^verbatim>\<open>GET /documentation\<close> and \<^verbatim>\<open>POST /users\<close>; on a
  guarded route a request with no token, or with a token that does not verify, is answered
  with status 401 without a store call (no call is made, the store's state is unchanged);
  on the three other routes the handler runs whatever the token.
\<close>

theorem guard_on_protected_routes:
  assumes "find_route (routes hashPassword isEmail) req = Some ((m, pat, auth, h), ps)"
  shows "auth = ((m, pat) \<notin> {(GET, []), (GET, [Lit ''documentation'']), (POST, [Lit ''users''])}) \<and>
         (auth \<longrightarrow>
            authorization req = None \<or> (\<exists>t. authorization req = Some t \<and> \<not> verify t) \<longrightarrow>
              app verify hashPassword isEmail req = Some (Respond unauthorized) \<and>
              status unauthorized = 401 \<and>
              store_calls ex (Respond unauthorized) st = [] \<and>
              run ex (Respond unauthorized) st = (unauthorized, st)) \<and>
         (\<not> auth \<longrightarrow> app verify hashPassword isEmail req = Some (h (req\<lparr>params := ps\<rparr>)))"
proof (intro conjI impI)
  show "auth = ((m, pat) \<notin> {(GET, []), (GET, [Lit ''documentation'']), (POST, [Lit ''users''])})"
    by (rule routes_guarded[OF find_route_mem[OF assms]])
next
  assume auth and "authorization req = None \<or> (\<exists>t. authorization req = Some t \<and> \<not> verify t)"
  then have "\<not> authenticate verify req"
    by (simp add: not_authenticated_iff)
  with assms \<open>auth\<close> show "app verify hashPassword isEmail req = Some (Respond unauthorized)"
    by (simp add: app_rejected)
next
  show "status unauthorized = 401"
    by (simp add: unauthorized_def)
next
  show "store_calls ex (Respond unauthorized) st = []"
    by simp
next
  show "run ex (Respond unauthorized) st = (unauthorized, st)"
    by simp
next
  assume "\<not> auth"
  with assms show "app verify hashPassword isEmail req = Some (h (req\<lparr>params := ps\<rparr>))"
    by (simp add: app_open)
qed

theorem guard_on_protected_routes_witness:
  "find_route (routes example_hash example_isEmail)
       (example_unregister\<lparr>authorization := None\<rparr>) =
     Some ((DELETE, [Lit ''users'', Par ''id'', Lit ''unregister''], True, DELETEUserAccount),
           [(''id'', ''bob99'')]) \<and>
   app example_verify example_hash example_isEmail
       (example_unregister\<lparr>authorization := None\<rparr>) =
     Some (Respond \<lparr>status = 401, payload = Text ''Unauthorized''\<rparr>) \<and>
   app example_verify example_hash example_isEmail
       (example_unregister\<lparr>authorization := Some ''forged''\<rparr>) =
     Some (Respond \<lparr>status = 401, payload = Text ''Unauthorized''\<rparr>) \<and>
   find_route (routes example_hash example_isEmail)
       ((example_request GET [] [])\<lparr>authorization := None\<rparr>) =
     Some ((GET, [], False, GETRoot), []) \<and>
   app example_verify example_hash example_isEmail
       ((example_request GET [] [])\<lparr>authorization := None\<rparr>) =
     Some (Respond \<lparr>status = 200, payload = Text ''Welcome to my movie club!''\<rparr>)"
proof -
  let ?none = "example_unregister\<lparr>authorization := None\<rparr>"
  let ?forged = "example_unregister\<lparr>authorization := Some ''forged''\<rparr>"
  let ?root = "(example_request GET [] [])\<lparr>authorization := None\<rparr>"
  have r1: "find_route (routes example_hash example_isEmail) ?none =
     Some ((DELETE, [Lit ''users'', Par ''id'', Lit ''unregister''], True, DELETEUserAccount),
           [(''id'', ''bob99'')])"
    by (rule route_unregister) (simp_all add: example_unregister_def example_request_def)
  have r2: "find_route (routes example_hash example_isEmail) ?forged =
     Some ((DELETE, [Lit ''users'', Par ''id'', Lit ''unregister''], True, DELETEUserAccount),
           [(''id'', ''bob99'')])"
    by (rule route_unregister) (simp_all add: example_unregister_def example_request_def)
  have r3: "find_route (routes example_hash example_isEmail) ?root =
     Some ((GET, [], False, GETRoot), [])"
    by (rule route_root) (simp_all add: example_request_def)
  have n: "authorization ?none = None" by simp
  have f: "authorization ?forged = Some ''forged'' \<and> \<not> example_verify ''forged''"
    by (simp add: example_verify_def)
  have 1: "app example_verify example_hash example_isEmail ?none = Some (Respond unauthorized)"
    using guard_on_protected_routes[OF r1, where verify = example_verify and ex = mongo
        and st = example_db] n by simp
  have 2: "app example_verify example_hash example_isEmail ?forged = Some (Respond unauthorized)"
    using guard_on_protected_routes[OF r2, where verify = example_verify and ex = mongo
        and st = example_db] f by simp
  have 3: "app example_verify example_hash example_isEmail ?root = Some (GETRoot (?root\<lparr>params := []\<rparr>))"
    using guard_on_protected_routes[OF r3, where verify = example_verify and ex = mongo
        and st = example_db] by simp
  show ?thesis
    using r1 r3 1 2 3 by (simp add: unauthorized_def GETRoot_def)
qed

section \<open>Updates that match no user\<close>

lemma route_update:
  "req_method req = PUT \<Longrightarrow> path req = [''users'', v] \<Longrightarrow> v \<noteq> [] \<Longrightarrow>
     find_route (routes hp ie) req =
       Some ((PUT, [Lit ''users'', Par ''ID''], True, PUTUpdateUser), [(''ID'', v)])"
  by (simp add: routes_def match_path_def strip_slash_def lower_def)

lemma route_add_favorite:
  "req_method req = POST \<Longrightarrow> path req = [''users'', v, w] \<Longrightarrow> v \<noteq> [] \<Longrightarrow> w \<noteq> [] \<Longrightarrow>
     find_route (routes hp ie) req =
       Some ((POST, [Lit ''users'', Par ''ID'', Par ''movieID''], True, POSTAddFavoriteMovie),
             [(''ID'', v), (''movieID'', w)])"
  by (simp add: routes_def match_path_def strip_slash_def lower_def)

lemma route_remove_favorite:
  "req_method req = DELETE \<Longrightarrow> path req = [''users'', v, w] \<Longrightarrow> v \<noteq> [] \<Longrightarrow> w \<noteq> [] \<Longrightarrow>
   map lower w \<noteq> ''unregister'' \<Longrightarrow>
     find_route (routes hp ie) req =
       Some ((DELETE, [Lit ''users'', Par ''ID'', Par ''deleteFavorite''], True,
              DELETERemoveFavoriteMovie),
             [(''ID'', v), (''deleteFavorite'', w)])"
  by (simp add: routes_def match_path_def strip_slash_def lower_def)

lemma PUTUpdateUser_routed:
  "PUTUpdateUser (req\<lparr>params := [(''ID'', i)]\<rparr>) =
     Store (FindOneAndUpdate Users [(''id'', Undefined)]
         (Set_fields
           [(''Password'', js (req_body req ''Password'')),
            (''Email'', js (req_body req ''Email'')),
            (''Birthday'', js (req_body req ''Birthday''))])) (\<lambda>r. case r of
         Rejected err \<Rightarrow> Respond \<lparr>status = 500, payload = Text (''Error: '' @ err)\<rparr>
       | Resolved updatedUser \<Rightarrow> Respond \<lparr>status = 200, payload = Json updatedUser\<rparr>)"
  by (simp add: PUTUpdateUser_def req_params_def req_body_params js_def)

lemma POSTAddFavoriteMovie_routed:
  "POSTAddFavoriteMovie (req\<lparr>params := [(''ID'', i), (''movieID'', m)]\<rparr>) =
     Store (FindOneAndUpdate Users [(''user_name'', Str i)]
         (Push ''FavoriteMovies'' (Str m))) (\<lambda>r. case r of
         Rejected err \<Rightarrow> Respond \<lparr>status = 500, payload = Text (''Error: '' @ err)\<rparr>
       | Resolved updatedUser \<Rightarrow> Respond \<lparr>status = 200, payload = Json updatedUser\<rparr>)"
  by (simp add: POSTAddFavoriteMovie_def req_params_def js_def)

lemma DELETERemoveFavoriteMovie_routed:
  "DELETERemoveFavoriteMovie (req\<lparr>params := [(''ID'', i), (''deleteFavorite'', m)]\<rparr>) =
     Store (FindOneAndUpdate Users [(''user_name'', Undefined)]
         (Pull ''FavoriteMovies'' Undefined)) (\<lambda>r. case r of
         Rejected err \<Rightarrow> Respond \<lparr>status = 500, payload = Text (''Error: '' @ err)\<rparr>
       | Resolved updatedUser \<Rightarrow> Respond \<lparr>status = 200, payload = Json updatedUser\<rparr>)"
  by (simp add: DELETERemoveFavoriteMovie_def req_params_def js_def)

lemma update_no_match:
  assumes "\<forall>d \<in> set (users st). \<not> matches flt d"
  shows "store_calls mongo (Store (FindOneAndUpdate Users flt u) (\<lambda>r. case r of
             Rejected err \<Rightarrow> Respond \<lparr>status = 500, payload = Text (''Error: '' @ err)\<rparr>
           | Resolved updatedUser \<Rightarrow> Respond \<lparr>status = 200, payload = Json updatedUser\<rparr>)) st =
           [FindOneAndUpdate Users flt u] \<and>
         run mongo (Store (FindOneAndUpdate Users flt u) (\<lambda>r. case r of
             Rejected err \<Rightarrow> Respond \<lparr>status = 500, payload = Text (''Error: '' @ err)\<rparr>
           | Resolved updatedUser \<Rightarrow> Respond \<lparr>status = 200, payload = Json updatedUser\<rparr>)) st =
           (\<lparr>status = 200, payload = Json Null\<rparr>, st)"
proof -
  have "find (matches flt) (docs Users st) = None"
    using assms by (simp add: find_None_iff docs_def)
  then show ?thesis
    by simp
qed

lemma update_status:
  "status (fst (run ex (Store (FindOneAndUpdate Users flt u) (\<lambda>r. case r of
             Rejected err \<Rightarrow> Respond \<lparr>status = 500, payload = Text (''Error: '' @ err)\<rparr>
           | Resolved updatedUser \<Rightarrow> Respond \<lparr>status = 200, payload = Json updatedUser\<rparr>)) s)) =
     (case fst (ex (FindOneAndUpdate Users flt u) s) of
        Rejected err \<Rightarrow> 500 | Resolved v \<Rightarrow> 200)"
  by (simp split: prod.split settled.split)

text \<open>
  C10. For an authenticated request routed to \<^verbatim>\<open>PUT /users/:ID\<close>,
  \<^verbatim>\<open>POST /users/:ID/:movieID\<close> or \<^verbatim>\<open>DELETE /users/:ID/:deleteFavorite\<close>: the handler makes
  exactly one store call, the \<^verbatim>\<open>findOneAndUpdate\<close> on the users with the filter and update
  listed for the route; when no user document matches that filter the store resolves with
  \<^verbatim>\<open>null\<close>, the response is status 200 with the JSON body \<^verbatim>\<open>null\<close>, and the store is
  unchanged. Against any store the status is 200 unless the store rejects the call, and
  then it is 500; it is never 404. (For the first and the last route the filter is the
  same for every request, since the handlers read \<^verbatim>\<open>req.params.id\<close>, which their routes do
  not bind.)
\<close>

theorem missing_user_gives_null:
  assumes "authenticate verify req"
    and "i \<noteq> []" and "m \<noteq> []"
    and "(req_method req, path req, ps, h, flt, u) \<in>
          {(PUT, [''users'', i], [(''ID'', i)], PUTUpdateUser,
              [(''id'', Undefined)],
              Set_fields
                [(''Password'', js (req_body req ''Password'')),
                 (''Email'', js (req_body req ''Email'')),
                 (''Birthday'', js (req_body req ''Birthday''))]),
           (POST, [''users'', i, m], [(''ID'', i), (''movieID'', m)], POSTAddFavoriteMovie,
              [(''user_name'', Str i)],
              Push ''FavoriteMovies'' (Str m)),
           (DELETE, [''users'', i, m], [(''ID'', i), (''deleteFavorite'', m)],
              DELETERemoveFavoriteMovie,
              [(''user_name'', Undefined)],
              Pull ''FavoriteMovies'' Undefined)}"
    and "req_method req = DELETE \<longrightarrow> map lower m \<noteq> ''unregister''"
    and "\<forall>d \<in> set (users st). \<not> matches flt d"
  shows "app verify hashPassword isEmail req = Some (h (req\<lparr>params := ps\<rparr>)) \<and>
         store_calls mongo (h (req\<lparr>params := ps\<rparr>)) st = [FindOneAndUpdate Users flt u] \<and>
         run mongo (h (req\<lparr>params := ps\<rparr>)) st = (\<lparr>status = 200, payload = Json Null\<rparr>, st) \<and>
         (\<forall>ex s. status (fst (run ex (h (req\<lparr>params := ps\<rparr>)) s)) =
            (case fst (ex (FindOneAndUpdate Users flt u) s) of
               Rejected err \<Rightarrow> 500 | Resolved v \<Rightarrow> 200))"
proof -
  consider
      (put) "req_method req = PUT" "path req = [''users'', i]" "ps = [(''ID'', i)]"
        "h = PUTUpdateUser" "flt = [(''id'', Undefined)]"
        "u = Set_fields
                [(''Password'', js (req_body req ''Password'')),
                 (''Email'', js (req_body req ''Email'')),
                 (''Birthday'', js (req_body req ''Birthday''))]"
    | (post) "req_method req = POST" "path req = [''users'', i, m]"
        "ps = [(''ID'', i), (''movieID'', m)]" "h = POSTAddFavoriteMovie"
        "flt = [(''user_name'', Str i)]" "u = Push ''FavoriteMovies'' (Str m)"
    | (delete) "req_method req = DELETE" "path req = [''users'', i, m]"
        "ps = [(''ID'', i), (''deleteFavorite'', m)]" "h = DELETERemoveFavoriteMovie"
        "flt = [(''user_name'', Undefined)]" "u = Pull ''FavoriteMovies'' Undefined"
    using assms(4) by auto
  then show ?thesis
  proof cases
    case put
    have "app verify hashPassword isEmail req = Some (PUTUpdateUser (req\<lparr>params := [(''ID'', i)]\<rparr>))"
      by (rule app_guarded[OF route_update[OF put(1,2) assms(2)] assms(1)])
    then have a: "app verify hashPassword isEmail req = Some (PUTUpdateUser (req\<lparr>params := [(''ID'', i)]\<rparr>))" .
    have b: "store_calls mongo (PUTUpdateUser (req\<lparr>params := [(''ID'', i)]\<rparr>)) st = [FindOneAndUpdate Users flt u] \<and>
        run mongo (PUTUpdateUser (req\<lparr>params := [(''ID'', i)]\<rparr>)) st = (\<lparr>status = 200, payload = Json Null\<rparr>, st)"
      unfolding PUTUpdateUser_routed put(5,6)
      by (rule update_no_match[OF assms(6)[unfolded put(5)]])
    have c: "\<forall>ex s. status (fst (run ex (h (req\<lparr>params := ps\<rparr>)) s)) =
        (case fst (ex (FindOneAndUpdate Users flt u) s) of
           Rejected err \<Rightarrow> 500 | Resolved v \<Rightarrow> 200)"
      unfolding put(3,4) PUTUpdateUser_routed put(5,6) by (intro allI) (rule update_status)
    show ?thesis
      using a b c unfolding put(3,4) by blast
  next
    case post
    have "app verify hashPassword isEmail req =
        Some (POSTAddFavoriteMovie (req\<lparr>params := [(''ID'', i), (''movieID'', m)]\<rparr>))"
      by (rule app_guarded[OF route_add_favorite[OF post(1,2) assms(2,3)] assms(1)])
    then have a: "app verify hashPassword isEmail req = Some (POSTAddFavoriteMovie (req\<lparr>params := [(''ID'', i), (''movieID'', m)]\<rparr>))" .
    have b: "store_calls mongo (POSTAddFavoriteMovie (req\<lparr>params := [(''ID'', i), (''movieID'', m)]\<rparr>)) st = [FindOneAndUpdate Users flt u] \<and>
        run mongo (POSTAddFavoriteMovie (req\<lparr>params := [(''ID'', i), (''movieID'', m)]\<rparr>)) st = (\<lparr>status = 200, payload = Json Null\<rparr>, st)"
      unfolding POSTAddFavoriteMovie_routed post(5,6)
      by (rule update_no_match[OF assms(6)[unfolded post(5)]])
    have c: "\<forall>ex s. status (fst (run ex (h (req\<lparr>params := ps\<rparr>)) s)) =
        (case fst (ex (FindOneAndUpdate Users flt u) s) of
           Rejected err \<Rightarrow> 500 | Resolved v \<Rightarrow> 200)"
      unfolding post(3,4) POSTAddFavoriteMovie_routed post(5,6) by (intro allI) (rule update_status)
    show ?thesis
      using a b c unfolding post(3,4) by blast
  next
    case delete
    have l: "map lower m \<noteq> ''unregister''"
      using assms(5) delete(1) by simp
    have "app verify hashPassword isEmail req =
        Some (DELETERemoveFavoriteMovie
          (req\<lparr>params := [(''ID'', i), (''deleteFavorite'', m)]\<rparr>))"
      by (rule app_guarded[OF route_remove_favorite[OF delete(1,2) assms(2,3) l] assms(1)])
    then have a: "app verify hashPassword isEmail req = Some (DELETERemoveFavoriteMovie
          (req\<lparr>params := [(''ID'', i), (''deleteFavorite'', m)]\<rparr>))" .
    have b: "store_calls mongo (DELETERemoveFavoriteMovie
          (req\<lparr>params := [(''ID'', i), (''deleteFavorite'', m)]\<rparr>)) st = [FindOneAndUpdate Users flt u] \<and>
        run mongo (DELETERemoveFavoriteMovie
          (req\<lparr>params := [(''ID'', i), (''deleteFavorite'', m)]\<rparr>)) st = (\<lparr>status = 200, payload = Json Null\<rparr>, st)"
      unfolding DELETERemoveFavoriteMovie_routed delete(5,6)
      by (rule update_no_match[OF assms(6)[unfolded delete(5)]])
    have c: "\<forall>ex s. status (fst (run ex (h (req\<lparr>params := ps\<rparr>)) s)) =
        (case fst (ex (FindOneAndUpdate Users flt u) s) of
           Rejected err \<Rightarrow> 500 | Resolved v \<Rightarrow> 200)"
      unfolding delete(3,4) DELETERemoveFavoriteMovie_routed delete(5,6) by (intro allI) (rule update_status)
    show ?thesis
      using a b c unfolding delete(3,4) by blast
  qed
qed

lemma example_no_match:
  "\<forall>d \<in> set (users example_member_db). \<not> matches [(''id'', Undefined)] d"
  "\<forall>d \<in> set (users example_db). \<not> matches [(''user_name'', Str ''bob99'')] d"
  "\<forall>d \<in> set (users example_member_db). \<not> matches [(''user_name'', Undefined)] d"
  by (simp_all add: matches_undefined matches_string example_member_db_def example_member_def
      example_db_def example_user_def)

theorem missing_user_gives_null_witness:
  "find (matches [(''id'', Undefined)]) (users example_member_db) = None \<and>
   run mongo (PUTUpdateUser ((example_update ''zed'')\<lparr>params := [(''ID'', ''zed'')]\<rparr>))
       example_member_db =
     (\<lparr>status = 200, payload = Json Null\<rparr>, example_member_db) \<and>
   find (matches [(''user_name'', Str ''bob99'')]) (users example_db) = None \<and>
   run mongo (POSTAddFavoriteMovie
       (example_add_favorite\<lparr>params := [(''ID'', ''bob99''), (''movieID'', ''m1'')]\<rparr>))
       example_db =
     (\<lparr>status = 200, payload = Json Null\<rparr>, example_db) \<and>
   find (matches [(''user_name'', Undefined)]) (users example_member_db) = None \<and>
   run mongo (DELETERemoveFavoriteMovie
       (example_remove_favorite\<lparr>params := [(''ID'', ''bob99''), (''deleteFavorite'', ''m1'')]\<rparr>))
       example_member_db =
     (\<lparr>status = 200, payload = Json Null\<rparr>, example_member_db)"
proof -
  have auth: "authenticate example_verify (example_update ''zed'')"
    "authenticate example_verify example_add_favorite"
    "authenticate example_verify example_remove_favorite"
    by (simp_all add: example_update_def example_add_favorite_def example_remove_favorite_def
        example_authenticated)
  have ne: "''zed'' \<noteq> []" "''bob99'' \<noteq> []" "''m1'' \<noteq> []"
    by simp_all
  have put: "(req_method (example_update ''zed''), path (example_update ''zed''),
        [(''ID'', ''zed'')], PUTUpdateUser, [(''id'', Undefined)],
        Set_fields
          [(''Password'', js (req_body (example_update ''zed'') ''Password'')),
           (''Email'', js (req_body (example_update ''zed'') ''Email'')),
           (''Birthday'', js (req_body (example_update ''zed'') ''Birthday''))]) \<in>
      {(PUT, [''users'', ''zed''], [(''ID'', ''zed'')], PUTUpdateUser,
          [(''id'', Undefined)],
          Set_fields
            [(''Password'', js (req_body (example_update ''zed'') ''Password'')),
             (''Email'', js (req_body (example_update ''zed'') ''Email'')),
             (''Birthday'', js (req_body (example_update ''zed'') ''Birthday''))]),
       (POST, [''users'', ''zed'', ''m1''], [(''ID'', ''zed''), (''movieID'', ''m1'')],
          POSTAddFavoriteMovie, [(''user_name'', Str ''zed'')],
          Push ''FavoriteMovies'' (Str ''m1'')),
       (DELETE, [''users'', ''zed'', ''m1''], [(''ID'', ''zed''), (''deleteFavorite'', ''m1'')],
          DELETERemoveFavoriteMovie, [(''user_name'', Undefined)],
          Pull ''FavoriteMovies'' Undefined)}"
    by (simp add: example_update_def example_request_plain)
  have post: "(req_method example_add_favorite, path example_add_favorite,
        [(''ID'', ''bob99''), (''movieID'', ''m1'')], POSTAddFavoriteMovie,
        [(''user_name'', Str ''bob99'')], Push ''FavoriteMovies'' (Str ''m1'')) \<in>
      {(PUT, [''users'', ''bob99''], [(''ID'', ''bob99'')], PUTUpdateUser,
          [(''id'', Undefined)],
          Set_fields
            [(''Password'', js (req_body example_add_favorite ''Password'')),
             (''Email'', js (req_body example_add_favorite ''Email'')),
             (''Birthday'', js (req_body example_add_favorite ''Birthday''))]),
       (POST, [''users'', ''bob99'', ''m1''], [(''ID'', ''bob99''), (''movieID'', ''m1'')],
          POSTAddFavoriteMovie, [(''user_name'', Str ''bob99'')],
          Push ''FavoriteMovies'' (Str ''m1'')),
       (DELETE, [''users'', ''bob99'', ''m1''],
          [(''ID'', ''bob99''), (''deleteFavorite'', ''m1'')],
          DELETERemoveFavoriteMovie, [(''user_name'', Undefined)],
          Pull ''FavoriteMovies'' Undefined)}"
    by (simp add: example_add_favorite_def example_request_plain)
  have delete: "(req_method example_remove_favorite, path example_remove_favorite,
        [(''ID'', ''bob99''), (''deleteFavorite'', ''m1'')], DELETERemoveFavoriteMovie,
        [(''user_name'', Undefined)], Pull ''FavoriteMovies'' Undefined) \<in>
      {(PUT, [''users'', ''bob99''], [(''ID'', ''bob99'')], PUTUpdateUser,
          [(''id'', Undefined)],
          Set_fields
            [(''Password'', js (req_body example_remove_favorite ''Password'')),
             (''Email'', js (req_body example_remove_favorite ''Email'')),
             (''Birthday'', js (req_body example_remove_favorite ''Birthday''))]),
       (POST, [''users'', ''bob99'', ''m1''], [(''ID'', ''bob99''), (''movieID'', ''m1'')],
          POSTAddFavoriteMovie, [(''user_name'', Str ''bob99'')],
          Push ''FavoriteMovies'' (Str ''m1'')),
       (DELETE, [''users'', ''bob99'', ''m1''],
          [(''ID'', ''bob99''), (''deleteFavorite'', ''m1'')],
          DELETERemoveFavoriteMovie, [(''user_name'', Undefined)],
          Pull ''FavoriteMovies'' Undefined)}"
    by (simp add: example_remove_favorite_def example_request_plain)
  have u1: "req_method (example_update ''zed'') = DELETE \<longrightarrow> map lower ''m1'' \<noteq> ''unregister''"
    and u2: "req_method example_add_favorite = DELETE \<longrightarrow> map lower ''m1'' \<noteq> ''unregister''"
    and u3: "req_method example_remove_favorite = DELETE \<longrightarrow> map lower ''m1'' \<noteq> ''unregister''"
    by (simp_all add: lower_def)
  have 1: "run mongo (PUTUpdateUser ((example_update ''zed'')\<lparr>params := [(''ID'', ''zed'')]\<rparr>))
       example_member_db = (\<lparr>status = 200, payload = Json Null\<rparr>, example_member_db)"
    using missing_user_gives_null[where hashPassword = example_hash
        and isEmail = example_isEmail, OF auth(1) ne(1,3) put u1 example_no_match(1)]
    by blast
  have 2: "run mongo (POSTAddFavoriteMovie
       (example_add_favorite\<lparr>params := [(''ID'', ''bob99''), (''movieID'', ''m1'')]\<rparr>))
       example_db = (\<lparr>status = 200, payload = Json Null\<rparr>, example_db)"
    using missing_user_gives_null[where hashPassword = example_hash
        and isEmail = example_isEmail, OF auth(2) ne(2,3) post u2 example_no_match(2)]
    by blast
  have 3: "run mongo (DELETERemoveFavoriteMovie
       (example_remove_favorite\<lparr>params := [(''ID'', ''bob99''), (''deleteFavorite'', ''m1'')]\<rparr>))
       example_member_db = (\<lparr>status = 200, payload = Json Null\<rparr>, example_member_db)"
    using missing_user_gives_null[where hashPassword = example_hash
        and isEmail = example_isEmail, OF auth(3) ne(2,3) delete u3 example_no_match(3)]
    by blast
  show ?thesis
    using 1 2 3 example_no_match by (simp add: find_None_iff)
qed

section \<open>Requests on which the handlers miss their documentation\<close>

lemma example_update_routed:
  "name \<noteq> [] \<Longrightarrow>
   app example_verify example_hash example_isEmail (example_update name) =
     Some (PUTUpdateUser ((example_update name)\<lparr>params := [(''ID'', name)]\<rparr>))"
  by (rule app_guarded[OF route_update])
     (simp_all add: example_update_def example_request_def authenticate_def example_verify_def)

lemma example_update_call:
  "PUTUpdateUser ((example_update name)\<lparr>params := [(''ID'', name)]\<rparr>) =
     Store (FindOneAndUpdate Users [(''id'', Undefined)]
         (Set_fields
           [(''Password'', Str ''secret''), (''Email'', Str ''new@example.com''),
            (''Birthday'', Str ''2000-02-02'')])) (\<lambda>r. case r of
         Rejected err \<Rightarrow> Respond \<lparr>status = 500, payload = Text (''Error: '' @ err)\<rparr>
       | Resolved updatedUser \<Rightarrow> Respond \<lparr>status = 200, payload = Json updatedUser\<rparr>)"
  by (simp add: PUTUpdateUser_def example_update_def example_request_def req_params_def
      req_body_def js_def)

text \<open>
  C1. Signup stores the hash of the submitted password. A following
  \<^verbatim>\<open>PUT /users/alice1\<close> whose body carries the password \<^verbatim>\<open>secret\<close> stores that text as it
  is: after it the stored Password of the user is the plaintext of the request body.
\<close>

theorem profile_update_stores_plaintext:
  "run mongo (POSTUsers example_hash example_isEmail example_signup) example_empty_db =
     (\<lparr>status = 201, payload = Json (Obj example_signed_up)\<rparr>,
      \<lparr>movies = [], users = [example_signed_up], next_id = 1\<rparr>) \<and>
   app example_verify example_hash example_isEmail (example_update ''alice1'') =
     Some (PUTUpdateUser ((example_update ''alice1'')\<lparr>params := [(''ID'', ''alice1'')]\<rparr>)) \<and>
   run mongo (PUTUpdateUser ((example_update ''alice1'')\<lparr>params := [(''ID'', ''alice1'')]\<rparr>))
       \<lparr>movies = [], users = [example_signed_up], next_id = 1\<rparr> =
     (\<lparr>status = 200, payload = Json (Obj
        [(''_id'', Oid 0), (''Username'', Str ''alice1''), (''Password'', Str ''secret''),
         (''Email'', Str ''new@example.com''), (''Birthday'', Str ''2000-02-02'')])\<rparr>,
      \<lparr>movies = [],
         users = [[(''_id'', Oid 0), (''Username'', Str ''alice1''),
                   (''Password'', Str ''secret''), (''Email'', Str ''new@example.com''),
                   (''Birthday'', Str ''2000-02-02'')]],
         next_id = 1\<rparr>)"
proof (intro conjI)
  have f: "find (\<lambda>d. get_field (Obj d) ''Username'' = Str ''alice1'') (users example_empty_db) = None"
    by (simp add: example_empty_db_def)
  have h: "example_hash (req_body example_signup ''Password'') = Some ''#secret''"
    by (simp add: example_signup_fields example_hash_def)
  show "run mongo (POSTUsers example_hash example_isEmail example_signup) example_empty_db =
     (\<lparr>status = 201, payload = Json (Obj example_signed_up)\<rparr>,
      \<lparr>movies = [], users = [example_signed_up], next_id = 1\<rparr>)"
    using run_POSTUsers_free[where hashPassword = example_hash,
        OF example_signup_valid example_signup_fields(4) h f refl]
    by (simp add: example_signup_fields js_def example_signed_up_def example_empty_db_def)
next
  show "app example_verify example_hash example_isEmail (example_update ''alice1'') =
     Some (PUTUpdateUser ((example_update ''alice1'')\<lparr>params := [(''ID'', ''alice1'')]\<rparr>))"
    by (rule example_update_routed) simp
next
  show "run mongo (PUTUpdateUser ((example_update ''alice1'')\<lparr>params := [(''ID'', ''alice1'')]\<rparr>))
       \<lparr>movies = [], users = [example_signed_up], next_id = 1\<rparr> =
     (\<lparr>status = 200, payload = Json (Obj
        [(''_id'', Oid 0), (''Username'', Str ''alice1''), (''Password'', Str ''secret''),
         (''Email'', Str ''new@example.com''), (''Birthday'', Str ''2000-02-02'')])\<rparr>,
      \<lparr>movies = [],
         users = [[(''_id'', Oid 0), (''Username'', Str ''alice1''),
                   (''Password'', Str ''secret''), (''Email'', Str ''new@example.com''),
                   (''Birthday'', Str ''2000-02-02'')]],
         next_id = 1\<rparr>)"
    unfolding example_update_call
    by (simp add: matches_undefined docs_def put_docs_def example_signed_up_def bson_def)
qed

lemma example_add_favorite_routed:
  "app example_verify example_hash example_isEmail example_add_favorite =
     Some (POSTAddFavoriteMovie
       (example_add_favorite\<lparr>params := [(''ID'', ''bob99''), (''movieID'', ''m1'')]\<rparr>))"
  by (rule app_guarded[OF route_add_favorite])
     (simp_all add: example_add_favorite_def example_request_def authenticate_def
       example_verify_def)

lemma example_remove_favorite_routed:
  "app example_verify example_hash example_isEmail example_remove_favorite =
     Some (DELETERemoveFavoriteMovie
       (example_remove_favorite\<lparr>params := [(''ID'', ''bob99''), (''deleteFavorite'', ''m1'')]\<rparr>))"
  by (rule app_guarded[OF route_remove_favorite])
     (simp_all add: example_remove_favorite_def example_request_def authenticate_def
       example_verify_def lower_def)

lemma example_add_favorite_call:
  "POSTAddFavoriteMovie
       (example_add_favorite\<lparr>params := [(''ID'', ''bob99''), (''movieID'', ''m1'')]\<rparr>) =
     Store (FindOneAndUpdate Users [(''user_name'', Str ''bob99'')]
         (Push ''FavoriteMovies'' (Str ''m1''))) (\<lambda>r. case r of
         Rejected err \<Rightarrow> Respond \<lparr>status = 500, payload = Text (''Error: '' @ err)\<rparr>
       | Resolved updatedUser \<Rightarrow> Respond \<lparr>status = 200, payload = Json updatedUser\<rparr>)"
  by (simp add: POSTAddFavoriteMovie_def req_params_def js_def)

lemma example_remove_favorite_call:
  "DELETERemoveFavoriteMovie
       (example_remove_favorite\<lparr>params := [(''ID'', ''bob99''), (''deleteFavorite'', ''m1'')]\<rparr>) =
     Store (FindOneAndUpdate Users [(''user_name'', Undefined)]
         (Pull ''FavoriteMovies'' Undefined)) (\<lambda>r. case r of
         Rejected err \<Rightarrow> Respond \<lparr>status = 500, payload = Text (''Error: '' @ err)\<rparr>
       | Resolved updatedUser \<Rightarrow> Respond \<lparr>status = 200, payload = Json updatedUser\<rparr>)"
  by (simp add: DELETERemoveFavoriteMovie_def req_params_def js_def)

text \<open>
  C5. On a user whose \<^verbatim>\<open>user_name\<close> is \<^verbatim>\<open>bob99\<close> and whose favourites are empty,
  \<^verbatim>\<open>POST /users/bob99/m1\<close> appends \<^verbatim>\<open>m1\<close>. The following \<^verbatim>\<open>DELETE /users/bob99/m1\<close> reads
  \<^verbatim>\<open>req.params.id\<close> and \<^verbatim>\<open>req.params.MovieID\<close>, which the route
  \<^verbatim>\<open>/users/:ID/:deleteFavorite\<close> does not bind: its store call names neither the user nor
  the movie, matches no document here, and the favourites stay \<^verbatim>\<open>[m1]\<close>.
\<close>

theorem favorite_removal_ignores_request:
  "app example_verify example_hash example_isEmail example_add_favorite =
     Some (POSTAddFavoriteMovie
       (example_add_favorite\<lparr>params := [(''ID'', ''bob99''), (''movieID'', ''m1'')]\<rparr>)) \<and>
   run mongo (POSTAddFavoriteMovie
       (example_add_favorite\<lparr>params := [(''ID'', ''bob99''), (''movieID'', ''m1'')]\<rparr>))
       example_member_db =
     (\<lparr>status = 200, payload = Json (Obj example_member_with_favorite)\<rparr>,
      \<lparr>movies = [], users = [example_member_with_favorite], next_id = 2\<rparr>) \<and>
   app example_verify example_hash example_isEmail example_remove_favorite =
     Some (DELETERemoveFavoriteMovie
       (example_remove_favorite\<lparr>params := [(''ID'', ''bob99''), (''deleteFavorite'', ''m1'')]\<rparr>)) \<and>
   store_calls mongo (DELETERemoveFavoriteMovie
       (example_remove_favorite\<lparr>params := [(''ID'', ''bob99''), (''deleteFavorite'', ''m1'')]\<rparr>))
       \<lparr>movies = [], users = [example_member_with_favorite], next_id = 2\<rparr> =
     [FindOneAndUpdate Users [(''user_name'', Undefined)] (Pull ''FavoriteMovies'' Undefined)] \<and>
   run mongo (DELETERemoveFavoriteMovie
       (example_remove_favorite\<lparr>params := [(''ID'', ''bob99''), (''deleteFavorite'', ''m1'')]\<rparr>))
       \<lparr>movies = [], users = [example_member_with_favorite], next_id = 2\<rparr> =
     (\<lparr>status = 200, payload = Json Null\<rparr>,
      \<lparr>movies = [], users = [example_member_with_favorite], next_id = 2\<rparr>)"
proof (intro conjI)
  show "app example_verify example_hash example_isEmail example_add_favorite =
     Some (POSTAddFavoriteMovie
       (example_add_favorite\<lparr>params := [(''ID'', ''bob99''), (''movieID'', ''m1'')]\<rparr>))"
    by (rule example_add_favorite_routed)
next
  show "run mongo (POSTAddFavoriteMovie
       (example_add_favorite\<lparr>params := [(''ID'', ''bob99''), (''movieID'', ''m1'')]\<rparr>))
       example_member_db =
     (\<lparr>status = 200, payload = Json (Obj example_member_with_favorite)\<rparr>,
      \<lparr>movies = [], users = [example_member_with_favorite], next_id = 2\<rparr>)"
    unfolding example_add_favorite_call
    by (simp add: matches_string docs_def put_docs_def example_member_db_def
        example_member_def example_member_with_favorite_def bson_def)
next
  show "app example_verify example_hash example_isEmail example_remove_favorite =
     Some (DELETERemoveFavoriteMovie
       (example_remove_favorite\<lparr>params := [(''ID'', ''bob99''), (''deleteFavorite'', ''m1'')]\<rparr>))"
    by (rule example_remove_favorite_routed)
next
  show "store_calls mongo (DELETERemoveFavoriteMovie
       (example_remove_favorite\<lparr>params := [(''ID'', ''bob99''), (''deleteFavorite'', ''m1'')]\<rparr>))
       \<lparr>movies = [], users = [example_member_with_favorite], next_id = 2\<rparr> =
     [FindOneAndUpdate Users [(''user_name'', Undefined)] (Pull ''FavoriteMovies'' Undefined)]"
    unfolding example_remove_favorite_call
    by (simp add: matches_undefined docs_def example_member_with_favorite_def)
next
  show "run mongo (DELETERemoveFavoriteMovie
       (example_remove_favorite\<lparr>params := [(''ID'', ''bob99''), (''deleteFavorite'', ''m1'')]\<rparr>))
       \<lparr>movies = [], users = [example_member_with_favorite], next_id = 2\<rparr> =
     (\<lparr>status = 200, payload = Json Null\<rparr>,
      \<lparr>movies = [], users = [example_member_with_favorite], next_id = 2\<rparr>)"
    unfolding example_remove_favorite_call
    by (simp add: matches_undefined docs_def example_member_with_favorite_def)
qed

text \<open>
  C6. \<^verbatim>\<open>PUT /users/bob99\<close> on two users, the first without a field \<^verbatim>\<open>id\<close>, the second
  with the field \<^verbatim>\<open>id\<close> equal to \<^verbatim>\<open>bob99\<close>: the handler reads \<^verbatim>\<open>req.params.id\<close>,
  which the route \<^verbatim>\<open>/users/:ID\<close> does not bind, so the filter is \<^verbatim>\<open>{ id: undefined }\<close>; the
  first user is updated and returned, the user whose \<^verbatim>\<open>id\<close> is \<^verbatim>\<open>bob99\<close> is left as it
  was.
\<close>

theorem profile_update_ignores_route_parameter:
  "app example_verify example_hash example_isEmail (example_update ''bob99'') =
     Some (PUTUpdateUser ((example_update ''bob99'')\<lparr>params := [(''ID'', ''bob99'')]\<rparr>)) \<and>
   store_calls mongo
       (PUTUpdateUser ((example_update ''bob99'')\<lparr>params := [(''ID'', ''bob99'')]\<rparr>))
       \<lparr>movies = [], users = [example_signed_up, example_member], next_id = 2\<rparr> =
     [FindOneAndUpdate Users [(''id'', Undefined)]
        (Set_fields
          [(''Password'', Str ''secret''), (''Email'', Str ''new@example.com''),
           (''Birthday'', Str ''2000-02-02'')])] \<and>
   run mongo (PUTUpdateUser ((example_update ''bob99'')\<lparr>params := [(''ID'', ''bob99'')]\<rparr>))
       \<lparr>movies = [], users = [example_signed_up, example_member], next_id = 2\<rparr> =
     (\<lparr>status = 200, payload = Json (Obj
        [(''_id'', Oid 0), (''Username'', Str ''alice1''), (''Password'', Str ''secret''),
         (''Email'', Str ''new@example.com''), (''Birthday'', Str ''2000-02-02'')])\<rparr>,
      \<lparr>movies = [],
         users = [[(''_id'', Oid 0), (''Username'', Str ''alice1''),
                   (''Password'', Str ''secret''), (''Email'', Str ''new@example.com''),
                   (''Birthday'', Str ''2000-02-02'')],
                  example_member],
         next_id = 2\<rparr>)"
proof (intro conjI)
  show "app example_verify example_hash example_isEmail (example_update ''bob99'') =
     Some (PUTUpdateUser ((example_update ''bob99'')\<lparr>params := [(''ID'', ''bob99'')]\<rparr>))"
    by (rule example_update_routed) simp
next
  show "store_calls mongo
       (PUTUpdateUser ((example_update ''bob99'')\<lparr>params := [(''ID'', ''bob99'')]\<rparr>))
       \<lparr>movies = [], users = [example_signed_up, example_member], next_id = 2\<rparr> =
     [FindOneAndUpdate Users [(''id'', Undefined)]
        (Set_fields
          [(''Password'', Str ''secret''), (''Email'', Str ''new@example.com''),
           (''Birthday'', Str ''2000-02-02'')])]"
    unfolding example_update_call
    by (simp add: matches_undefined docs_def put_docs_def example_member_def
        example_signed_up_def bson_def)
next
  show "run mongo (PUTUpdateUser ((example_update ''bob99'')\<lparr>params := [(''ID'', ''bob99'')]\<rparr>))
       \<lparr>movies = [], users = [example_signed_up, example_member], next_id = 2\<rparr> =
     (\<lparr>status = 200, payload = Json (Obj
        [(''_id'', Oid 0), (''Username'', Str ''alice1''), (''Password'', Str ''secret''),
         (''Email'', Str ''new@example.com''), (''Birthday'', Str ''2000-02-02'')])\<rparr>,
      \<lparr>movies = [],
         users = [[(''_id'', Oid 0), (''Username'', Str ''alice1''),
                   (''Password'', Str ''secret''), (''Email'', Str ''new@example.com''),
                   (''Birthday'', Str ''2000-02-02'')],
                  example_member],
         next_id = 2\<rparr>)"
    unfolding example_update_call
    by (simp add: matches_undefined docs_def put_docs_def example_member_def
        example_signed_up_def bson_def)
qed

lemma example_unregister_routed:
  "app example_verify example_hash example_isEmail example_unregister =
     Some (DELETEUserAccount (example_unregister\<lparr>params := [(''id'', ''bob99'')]\<rparr>))"
  by (rule app_guarded[OF route_unregister])
     (simp_all add: example_unregister_def example_request_def authenticate_def
       example_verify_def)

text \<open>
  C8. \<^verbatim>\<open>DELETE /users/bob99/unregister\<close> removes the user whose field \<^verbatim>\<open>id\<close> is
  \<^verbatim>\<open>bob99\<close> and answers status 200; when no user has that \<^verbatim>\<open>id\<close> it answers status 400.
  Both messages read \<^verbatim>\<open>req.params.user_name\<close>, which the route does not bind: the text is
  \<^verbatim>\<open>undefined was deleted.\<close>, respectively \<^verbatim>\<open>undefined was not found\<close>.
\<close>

theorem unregister_message_omits_user:
  "app example_verify example_hash example_isEmail example_unregister =
     Some (DELETEUserAccount (example_unregister\<lparr>params := [(''id'', ''bob99'')]\<rparr>)) \<and>
   run mongo (DELETEUserAccount (example_unregister\<lparr>params := [(''id'', ''bob99'')]\<rparr>))
       example_member_db =
     (\<lparr>status = 200, payload = Text ''undefined was deleted.''\<rparr>,
      \<lparr>movies = [], users = [], next_id = 2\<rparr>) \<and>
   run mongo (DELETEUserAccount (example_unregister\<lparr>params := [(''id'', ''bob99'')]\<rparr>))
       example_db =
     (\<lparr>status = 400, payload = Text ''undefined was not found''\<rparr>, example_db)"
proof (intro conjI)
  show "app example_verify example_hash example_isEmail example_unregister =
     Some (DELETEUserAccount (example_unregister\<lparr>params := [(''id'', ''bob99'')]\<rparr>))"
    by (rule example_unregister_routed)
next
  show "run mongo (DELETEUserAccount (example_unregister\<lparr>params := [(''id'', ''bob99'')]\<rparr>))
       example_member_db =
     (\<lparr>status = 200, payload = Text ''undefined was deleted.''\<rparr>,
      \<lparr>movies = [], users = [], next_id = 2\<rparr>)"
    by (simp add: DELETEUserAccount_def req_params_def js_def js_string_def matches_string
        docs_def put_docs_def example_member_db_def example_member_def)
next
  show "run mongo (DELETEUserAccount (example_unregister\<lparr>params := [(''id'', ''bob99'')]\<rparr>))
       example_db =
     (\<lparr>status = 400, payload = Text ''undefined was not found''\<rparr>, example_db)"
    by (simp add: DELETEUserAccount_def req_params_def js_def js_string_def matches_string
        docs_def put_docs_def example_db_def example_user_def)
qed

end
